theory Spec2Isabelle
  imports Main "HOL-Library.Word"
begin

section \<open>Data model of server/verify.go\<close>

text \<open>
  The verifier of go-tpm-tools, \<^verbatim>\<open>server/verify.go\<close>, embedded function by function.
  Byte slices are lists of 8-bit words, Go's \<^verbatim>\<open>int64\<close> is a 64-bit word read as two's
  complement, \<^verbatim>\<open>tpm2.Algorithm\<close> is \<^verbatim>\<open>uint16\<close>, the protobuf enum \<^verbatim>\<open>HashAlgo\<close> is
  \<^verbatim>\<open>int32\<close>, an ASN.1 object identifier is a list of integers. A pointer that may be nil
  is an \<open>option\<close>.
\<close>

type_synonym bytes = "8 word list"
type_synonym Algorithm = "16 word"
type_synonym ObjectIdentifier = "int list"

text \<open>\<^verbatim>\<open>tpm2.AlgSHA1\<close> is TPM\_ALG\_SHA1, 0x0004.\<close>

definition AlgSHA1 :: Algorithm where
  "AlgSHA1 = 0x0004"

definition oidExtensionSubjectAltName :: ObjectIdentifier where
  "oidExtensionSubjectAltName = [2, 5, 29, 17]"

definition cloudComputeInstanceIdentifierOID :: ObjectIdentifier where
  "cloudComputeInstanceIdentifierOID = [1, 3, 6, 1, 4, 1, 11129, 2, 1, 21]"

text \<open>The messages of \<^verbatim>\<open>proto/tpm\<close> and \<^verbatim>\<open>proto/attest\<close> that the verifier reads.\<close>

record PCRs =
  Hash :: "32 word"
  PcrValues :: "(32 word \<times> bytes) list"

record Quote =
  QuoteData :: bytes
  RawSig :: bytes
  Pcrs :: "PCRs option"

record Attestation =
  AkPub :: bytes
  Quotes :: "Quote list"
  EventLog :: bytes
  CanonicalEventLog :: bytes
  AkCert :: bytes
  IntermediateCerts_att :: "bytes list"

record GCEInstanceInfo =
  Zone_pb :: string
  ProjectId_pb :: string
  ProjectNumber_pb :: "64 word"
  InstanceName_pb :: string
  InstanceId_pb :: "64 word"

text \<open>
  The generated getters are nil-safe: \<^verbatim>\<open>GetPcrs\<close> of a quote is its (possibly nil) PCRs
  pointer, \<^verbatim>\<open>GetHash\<close> of a nil PCRs message is the zero enum value. The getters of the
  attestation are the fields of the record; a nil attestation reads as the record of empty
  fields.
\<close>

definition GetPcrs :: "Quote \<Rightarrow> PCRs option" where
  "GetPcrs quote = Pcrs quote"

definition GetHash :: "PCRs option \<Rightarrow> 32 word" where
  "GetHash pcrs = (case pcrs of None \<Rightarrow> 0 | Some p \<Rightarrow> Hash p)"

text \<open>The parts of \<^verbatim>\<open>pkix.Extension\<close> and \<^verbatim>\<open>x509.Certificate\<close> the code touches.
  \<^verbatim>\<open>PublicKey\<close> is an interface value: \<open>None\<close> is the nil interface.\<close>

record Extension =
  Id_ext :: ObjectIdentifier
  Critical :: bool
  Value :: bytes

record 'k Certificate =
  Raw :: bytes
  PublicKey :: "'k option"
  UnhandledCriticalExtensions :: "ObjectIdentifier list"
  Extensions :: "Extension list"

datatype ExtKeyUsage = ExtKeyUsageAny | ExtKeyUsageServerAuth

record 'k x509_VerifyOptions =
  Roots :: "'k Certificate list"
  Intermediates :: "'k Certificate list"
  KeyUsages :: "ExtKeyUsage list"

record 'k VerifyOpts =
  Nonce :: bytes
  TrustedAKs :: "'k list"
  AllowSHA1 :: bool
  TrustedRootCerts :: "'k Certificate list"
  IntermediateCerts :: "'k Certificate list"

record gceSecurityProperties =
  SecurityVersion :: "64 word"
  IsProduction :: bool

record gceInstanceInfo =
  Zone :: string
  ProjectNumber :: "64 word"
  ProjectID :: string
  InstanceID :: "64 word"
  InstanceName :: string
  SecurityProperties :: gceSecurityProperties

text \<open>
  What the DER bytes of the vendor extension hold, before they are stored into the Go
  struct: the fields tagged \<^verbatim>\<open>optional\<close> in the struct declarations may be missing.
\<close>

record asn1SecurityProperties =
  SecurityVersion_der :: "64 word option"
  IsProduction_der :: "bool option"

record asn1InstanceInfo =
  Zone_der :: string
  ProjectNumber_der :: "64 word"
  ProjectID_der :: string
  InstanceID_der :: "64 word"
  InstanceName_der :: string
  SecurityProperties_der :: "asn1SecurityProperties option"

subsection \<open>Errors and panics\<close>

text \<open>
  One constructor per \<^verbatim>\<open>fmt.Errorf\<close> of the file; a wrapped error (\<^verbatim>\<open>%w\<close>, \<^verbatim>\<open>%v\<close>) is the
  constructor's argument. \<open>External\<close> is an error a collaborator returned.
\<close>

datatype error =
    External string
  | BadOptions error
  | NoTrustMechanism
  | MultipleTrustMechanisms
  | FailedDecodeAKPublicArea error
  | FailedGetAKPublicKey error
  | FailedValidateAKPublicKey error
  | FailedParseAKCertificate error
  | AttestationIntermediates error
  | FailedValidateAKCertificate error
  | FailedVerifyQuote error
  | FailedValidatePCClientEventLog error
  | FailedValidateCanonicalEventLog error
  | SHA1NotAllowed
  | NoSupportedQuote
  | FailedParseGCEInstanceInfo error
  | NegativeIntegerFields
  | KeyNotTrusted
  | CertDidNotChain error
  | ErrorGettingInstanceInfo error

datatype panic = InterfaceConversionNil | MergeIntoNilMessage

text \<open>A call either panics, returns \<^verbatim>\<open>(nil, err)\<close> or returns \<^verbatim>\<open>(v, nil)\<close>.\<close>

datatype 'a res = Panic panic | Err error | Ok 'a

subsection \<open>Collaborators\<close>

text \<open>
  Everything \<^verbatim>\<open>verify.go\<close> calls but does not define is a field of the environment:
  \<^verbatim>\<open>internal.SignatureHashAlgs\<close>, \<^verbatim>\<open>internal.PubKeysEqual\<close>, \<^verbatim>\<open>tpm2.DecodePublic\<close> and the
  decoded area's \<^verbatim>\<open>Key\<close>, \<^verbatim>\<open>x509.ParseCertificate\<close>, \<^verbatim>\<open>parseCerts\<close>, \<^verbatim>\<open>Certificate.Verify\<close>,
  the DER decoding inside \<^verbatim>\<open>asn1.Unmarshal\<close>, \<^verbatim>\<open>internal.VerifyQuote\<close>, the two event-log
  parsers, and the machine-state messages with the field-wise merge of two of them.
  \<open>'k\<close> is the type of public keys, \<open>'p\<close> of decoded public areas, \<open>'ms\<close> of
  \<^verbatim>\<open>pb.MachineState\<close> messages. A collaborator that returns a value and an error returns
  either the error (\<open>Inl\<close>) or the value (\<open>Inr\<close>); a log parser that succeeds returns a
  message, not nil. \<open>emptyMachineState\<close> is \<^verbatim>\<open>&pb.MachineState{}\<close>, \<open>platformMachineState i\<close>
  is \<^verbatim>\<open>&pb.MachineState{Platform: &pb.PlatformState{InstanceInfo: i}}\<close>, and
  \<open>MergeMessage d s\<close> is the content of \<open>d\<close> after \<^verbatim>\<open>proto.Merge(d, s)\<close>.
\<close>

record ('k, 'p, 'ms) env =
  SignatureHashAlgs :: "Algorithm list"
  PubKeysEqual :: "'k \<Rightarrow> 'k \<Rightarrow> bool"
  DecodePublic :: "bytes \<Rightarrow> string + 'p"
  PublicKeyOf :: "'p \<Rightarrow> string + 'k"
  ParseCertificate :: "bytes \<Rightarrow> string + 'k Certificate"
  parseCerts :: "bytes list \<Rightarrow> string + 'k Certificate list"
  CertVerify :: "'k Certificate \<Rightarrow> 'k x509_VerifyOptions \<Rightarrow> string option"
  asn1Decode :: "bytes \<Rightarrow> string + asn1InstanceInfo"
  VerifyQuote :: "Quote \<Rightarrow> 'k \<Rightarrow> bytes \<Rightarrow> string option"
  parsePCClientEventLog :: "bytes \<Rightarrow> PCRs option \<Rightarrow> string + 'ms"
  parseCanonicalEventLog :: "bytes \<Rightarrow> PCRs option \<Rightarrow> string + 'ms"
  emptyMachineState :: "'ms"
  platformMachineState :: "GCEInstanceInfo option \<Rightarrow> 'ms"
  MergeMessage :: "'ms \<Rightarrow> 'ms \<Rightarrow> 'ms"

section \<open>The functions\<close>

subsection \<open>pcrHashAlgs and supportedQuotes\<close>

definition pcrHashAlgs :: "('k, 'p, 'ms) env \<Rightarrow> Algorithm list" where
  "pcrHashAlgs env = SignatureHashAlgs env @ [AlgSHA1]"

text \<open>\<^verbatim>\<open>tpm2.Algorithm(quote.GetPcrs().GetHash())\<close>: the conversion keeps the low 16 bits.\<close>

definition quoteAlg :: "Quote \<Rightarrow> Algorithm" where
  "quoteAlg quote = ucast (GetHash (GetPcrs quote))"

text \<open>The inner loop: the first quote of the algorithm, if any.\<close>

fun firstQuoteWithAlg :: "Algorithm \<Rightarrow> Quote list \<Rightarrow> Quote option" where
  "firstQuoteWithAlg alg [] = None"
| "firstQuoteWithAlg alg (quote # quotes) =
     (if quoteAlg quote = alg then Some quote else firstQuoteWithAlg alg quotes)"

text \<open>The outer loop over the algorithms; \<open>out\<close> is the slice built so far.\<close>

fun supportedQuotes_loop :: "Quote list \<Rightarrow> Quote list \<Rightarrow> Algorithm list \<Rightarrow> Quote list" where
  "supportedQuotes_loop quotes out [] = out"
| "supportedQuotes_loop quotes out (alg # algs) =
     (case firstQuoteWithAlg alg quotes of
        None \<Rightarrow> supportedQuotes_loop quotes out algs
      | Some quote \<Rightarrow> supportedQuotes_loop quotes (out @ [quote]) algs)"

definition supportedQuotes :: "('k, 'p, 'ms) env \<Rightarrow> Quote list \<Rightarrow> Quote list" where
  "supportedQuotes env quotes = supportedQuotes_loop quotes [] (pcrHashAlgs env)"

subsection \<open>validateOpts and validateAKPub\<close>

definition validateOpts :: "'k VerifyOpts \<Rightarrow> error option" where
  "validateOpts opts =
     (let checkPub = length (TrustedAKs opts) > 0;
          checkCert = length (TrustedRootCerts opts) > 0
      in if \<not> checkPub \<and> \<not> checkCert then Some NoTrustMechanism
         else if checkPub \<and> checkCert then Some MultipleTrustMechanisms
         else None)"

fun validateAKPub_loop :: "('k, 'p, 'ms) env \<Rightarrow> 'k \<Rightarrow> 'k list \<Rightarrow> error option" where
  "validateAKPub_loop env ak [] = Some KeyNotTrusted"
| "validateAKPub_loop env ak (trusted # rest) =
     (if PubKeysEqual env ak trusted then None else validateAKPub_loop env ak rest)"

definition validateAKPub :: "('k, 'p, 'ms) env \<Rightarrow> 'k \<Rightarrow> 'k VerifyOpts \<Rightarrow> error option" where
  "validateAKPub env ak opts = validateAKPub_loop env ak (TrustedAKs opts)"

subsection \<open>getInstanceInfo\<close>

text \<open>The scan for the vendor extension: \<open>rawInfo\<close> stays nil (empty) when none matches.\<close>

fun findRawInfo :: "Extension list \<Rightarrow> bytes" where
  "findRawInfo [] = []"
| "findRawInfo (ext # extensions) =
     (if Id_ext ext = cloudComputeInstanceIdentifierOID then Value ext
      else findRawInfo extensions)"

text \<open>
  \<^verbatim>\<open>info := gceInstanceInfo{}\<close> followed by \<^verbatim>\<open>asn1.Unmarshal(rawInfo, &info)\<close>: the decoder
  stores the fields the bytes hold; a field tagged \<^verbatim>\<open>optional\<close> that the bytes do not hold keeps
  the zero value of the freshly made struct.
\<close>

definition storeSecurityProperties :: "asn1SecurityProperties option \<Rightarrow> gceSecurityProperties" where
  "storeSecurityProperties d =
     (case d of
        None \<Rightarrow> \<lparr>SecurityVersion = 0, IsProduction = False\<rparr>
      | Some sp \<Rightarrow>
          \<lparr>SecurityVersion = (case SecurityVersion_der sp of None \<Rightarrow> 0 | Some v \<Rightarrow> v),
           IsProduction = (case IsProduction_der sp of None \<Rightarrow> False | Some b \<Rightarrow> b)\<rparr>)"

definition storeInstanceInfo :: "asn1InstanceInfo \<Rightarrow> gceInstanceInfo" where
  "storeInstanceInfo d =
     \<lparr>Zone = Zone_der d, ProjectNumber = ProjectNumber_der d, ProjectID = ProjectID_der d,
      InstanceID = InstanceID_der d, InstanceName = InstanceName_der d,
      SecurityProperties = storeSecurityProperties (SecurityProperties_der d)\<rparr>"

definition asn1_Unmarshal :: "('k, 'p, 'ms) env \<Rightarrow> bytes \<Rightarrow> string + gceInstanceInfo" where
  "asn1_Unmarshal env rawInfo =
     (case asn1Decode env rawInfo of Inl e \<Rightarrow> Inl e | Inr d \<Rightarrow> Inr (storeInstanceInfo d))"

definition getInstanceInfo ::
  "('k, 'p, 'ms) env \<Rightarrow> Extension list \<Rightarrow> error + GCEInstanceInfo option" where
  "getInstanceInfo env extensions =
     (let rawInfo = findRawInfo extensions in
      if length rawInfo = 0 then Inr None
      else case asn1_Unmarshal env rawInfo of
        Inl e \<Rightarrow> Inl (FailedParseGCEInstanceInfo (External e))
      | Inr info \<Rightarrow>
          if ProjectNumber info <s 0 \<or> InstanceID info <s 0
             \<or> SecurityVersion (SecurityProperties info) <s 0
          then Inl NegativeIntegerFields
          else if \<not> IsProduction (SecurityProperties info) then Inr None
          else Inr (Some \<lparr>Zone_pb = Zone info, ProjectId_pb = ProjectID info,
                          ProjectNumber_pb = ProjectNumber info,
                          InstanceName_pb = InstanceName info,
                          InstanceId_pb = InstanceID info\<rparr>))"

subsection \<open>validateAKCert\<close>

text \<open>The loop that rebuilds the unhandled critical extensions; \<open>exts\<close> starts nil.\<close>

fun stripSubjectAltName ::
  "ObjectIdentifier list \<Rightarrow> ObjectIdentifier list \<Rightarrow> ObjectIdentifier list" where
  "stripSubjectAltName exts [] = exts"
| "stripSubjectAltName exts (ext # rest) =
     (if ext = oidExtensionSubjectAltName then stripSubjectAltName exts rest
      else stripSubjectAltName (exts @ [ext]) rest)"

text \<open>A pool is the list of the certificates added to it.\<close>

definition makePool :: "'k Certificate list \<Rightarrow> 'k Certificate list" where
  "makePool certs = foldl (\<lambda>pool cert. pool @ [cert]) [] certs"

text \<open>
  \<^verbatim>\<open>akCert.PublicKey.(crypto.PublicKey)\<close> panics on the nil interface. With no trusted root
  the function returns \<^verbatim>\<open>nil, validateAKPub(...)\<close>: a nil machine state beside the key
  check's error, which is nil for a trusted key.
\<close>

definition validateAKCert ::
  "('k, 'p, 'ms) env \<Rightarrow> 'k Certificate \<Rightarrow> 'k VerifyOpts \<Rightarrow> 'ms option res" where
  "validateAKCert env akCert opts =
     (if length (TrustedRootCerts opts) = 0 then
        (case PublicKey akCert of
           None \<Rightarrow> Panic InterfaceConversionNil
         | Some ak \<Rightarrow>
             (case validateAKPub env ak opts of Some e \<Rightarrow> Err e | None \<Rightarrow> Ok None))
      else
        let exts = stripSubjectAltName [] (UnhandledCriticalExtensions akCert);
            akCert' = akCert\<lparr>UnhandledCriticalExtensions := exts\<rparr>;
            x509Opts = \<lparr>Roots = makePool (TrustedRootCerts opts),
                        Intermediates = makePool (IntermediateCerts opts),
                        KeyUsages = [ExtKeyUsageAny]\<rparr>
        in case CertVerify env akCert' x509Opts of
             Some e \<Rightarrow> Err (CertDidNotChain (External e))
           | None \<Rightarrow>
               (case getInstanceInfo env (Extensions akCert') of
                  Inl e \<Rightarrow> Err (ErrorGettingInstanceInfo e)
                | Inr instanceInfo \<Rightarrow> Ok (Some (platformMachineState env instanceInfo))))"

subsection \<open>VerifyAttestation\<close>

text \<open>
  Lines 81 to 114: the attestation key and the machine state the loop starts from.
  The appended intermediates only reach \<^verbatim>\<open>validateAKCert\<close>; the loop reads \<^verbatim>\<open>Nonce\<close> and
  \<^verbatim>\<open>AllowSHA1\<close>, which the append leaves alone.
\<close>

definition establishAK ::
  "('k, 'p, 'ms) env \<Rightarrow> Attestation \<Rightarrow> 'k VerifyOpts \<Rightarrow> ('k \<times> 'ms option) res" where
  "establishAK env attestation opts =
     (if length (AkCert attestation) = 0 then
        (case DecodePublic env (AkPub attestation) of
           Inl e \<Rightarrow> Err (FailedDecodeAKPublicArea (External e))
         | Inr akPubArea \<Rightarrow>
             (case PublicKeyOf env akPubArea of
                Inl e \<Rightarrow> Err (FailedGetAKPublicKey (External e))
              | Inr akPubKey \<Rightarrow>
                  (case validateAKPub env akPubKey opts of
                     Some e \<Rightarrow> Err (FailedValidateAKPublicKey e)
                   | None \<Rightarrow> Ok (akPubKey, Some (emptyMachineState env)))))
      else
        (case ParseCertificate env (AkCert attestation) of
           Inl e \<Rightarrow> Err (FailedParseAKCertificate (External e))
         | Inr akCert \<Rightarrow>
             (case parseCerts env (IntermediateCerts_att attestation) of
                Inl e \<Rightarrow> Err (AttestationIntermediates (External e))
              | Inr certs \<Rightarrow>
                  (case validateAKCert env akCert
                          (opts\<lparr>IntermediateCerts := IntermediateCerts opts @ certs\<rparr>) of
                     Panic p \<Rightarrow> Panic p
                   | Err e \<Rightarrow> Err (FailedValidateAKCertificate e)
                   | Ok machineState \<Rightarrow>
                       (case PublicKey akCert of
                          None \<Rightarrow> Panic InterfaceConversionNil
                        | Some akPubKey \<Rightarrow> Ok (akPubKey, machineState))))))"

text \<open>
  Lines 119 to 146, the checks of one candidate: the error the loop records, or the two
  fragments \<open>(celState, state)\<close> it goes on to merge.
\<close>

definition checkCandidate ::
  "('k, 'p, 'ms) env \<Rightarrow> Attestation \<Rightarrow> 'k VerifyOpts \<Rightarrow> 'k \<Rightarrow> Quote \<Rightarrow> error + ('ms \<times> 'ms)" where
  "checkCandidate env attestation opts akPubKey quote =
     (case VerifyQuote env quote akPubKey (Nonce opts) of
        Some e \<Rightarrow> Inl (FailedVerifyQuote (External e))
      | None \<Rightarrow>
          let pcrs = GetPcrs quote in
          (case parsePCClientEventLog env (EventLog attestation) pcrs of
             Inl e \<Rightarrow> Inl (FailedValidatePCClientEventLog (External e))
           | Inr state \<Rightarrow>
               (case parseCanonicalEventLog env (CanonicalEventLog attestation) pcrs of
                  Inl e \<Rightarrow> Inl (FailedValidateCanonicalEventLog (External e))
                | Inr celState \<Rightarrow>
                    if \<not> AllowSHA1 opts \<and> (ucast (GetHash pcrs) :: Algorithm) = AlgSHA1
                    then Inl SHA1NotAllowed
                    else Inr (celState, state))))"

text \<open>
  \<^verbatim>\<open>proto.Merge(dst, src)\<close> writes into the message \<open>dst\<close> points to. It is handed the
  pointer by value, so a nil \<open>dst\<close> stays nil in the caller; protobuf-go (v1.31.0 in
  \<^verbatim>\<open>go.mod\<close>) panics there with "invalid value: merging into nil message".
\<close>

definition protoMerge :: "('k, 'p, 'ms) env \<Rightarrow> 'ms option \<Rightarrow> 'ms \<Rightarrow> 'ms option res" where
  "protoMerge env dst src =
     (case dst of
        None \<Rightarrow> Panic MergeIntoNilMessage
      | Some d \<Rightarrow> Ok (Some (MergeMessage env d src)))"

text \<open>Lines 117 to 157: the loop over the candidates and what follows it.\<close>

fun replayQuotes ::
  "('k, 'p, 'ms) env \<Rightarrow> Attestation \<Rightarrow> 'k VerifyOpts \<Rightarrow> 'k \<Rightarrow> 'ms option \<Rightarrow>
   error option \<Rightarrow> Quote list \<Rightarrow> 'ms option res" where
  "replayQuotes env attestation opts akPubKey machineState lastErr [] =
     (case lastErr of Some e \<Rightarrow> Err e | None \<Rightarrow> Err NoSupportedQuote)"
| "replayQuotes env attestation opts akPubKey machineState lastErr (quote # quotes) =
     (case checkCandidate env attestation opts akPubKey quote of
        Inl e \<Rightarrow> replayQuotes env attestation opts akPubKey machineState (Some e) quotes
      | Inr (celState, state) \<Rightarrow>
          (case protoMerge env machineState celState of
             Panic p \<Rightarrow> Panic p
           | Err e \<Rightarrow> Err e
           | Ok machineState' \<Rightarrow> protoMerge env machineState' state))"

definition VerifyAttestation ::
  "('k, 'p, 'ms) env \<Rightarrow> Attestation \<Rightarrow> 'k VerifyOpts \<Rightarrow> 'ms option res" where
  "VerifyAttestation env attestation opts =
     (case validateOpts opts of
        Some e \<Rightarrow> Err (BadOptions e)
      | None \<Rightarrow>
          (case establishAK env attestation opts of
             Panic p \<Rightarrow> Panic p
           | Err e \<Rightarrow> Err e
           | Ok (akPubKey, machineState) \<Rightarrow>
               replayQuotes env attestation opts akPubKey machineState None
                 (supportedQuotes env (Quotes attestation))))"

subsection \<open>Notions the properties are stated with\<close>

text \<open>
  A candidate passes when the quote check, the replay of the primary log, the replay of
  the canonical log and the SHA-1 policy all pass, the four steps of the loop body.
\<close>

definition candidatePasses ::
  "('k, 'p, 'ms) env \<Rightarrow> Attestation \<Rightarrow> 'k VerifyOpts \<Rightarrow> 'k \<Rightarrow> Quote \<Rightarrow> bool" where
  "candidatePasses env attestation opts akPubKey quote =
     (VerifyQuote env quote akPubKey (Nonce opts) = None
      \<and> \<not> isl (parsePCClientEventLog env (EventLog attestation) (GetPcrs quote))
      \<and> \<not> isl (parseCanonicalEventLog env (CanonicalEventLog attestation) (GetPcrs quote))
      \<and> (AllowSHA1 opts \<or> quoteAlg quote \<noteq> AlgSHA1))"

text \<open>The options \<^verbatim>\<open>validateAKCert\<close> hands to \<^verbatim>\<open>Certificate.Verify\<close>.\<close>

definition chainOptions :: "'k VerifyOpts \<Rightarrow> 'k x509_VerifyOptions" where
  "chainOptions opts =
     \<lparr>Roots = TrustedRootCerts opts, Intermediates = IntermediateCerts opts,
      KeyUsages = [ExtKeyUsageAny]\<rparr>"

subsection \<open>A concrete environment\<close>

text \<open>
  A small instance of the collaborators, on which the functions can be run: keys and
  public areas are numbers, a machine state is the instance information of its platform
  part and the list of the log fragments merged into it. A certificate is its key's number
  (255 does not parse) followed by the last arcs of its unhandled critical extensions, and
  the certificate of
  key 5 carries the vendor extension of a production instance; a certificate is trusted
  when it is itself one of the roots and no unhandled critical extension is left; the
  vendor extension is two or four small integers: project number, instance id and, when
  the security properties are present, security version and production flag; a quote verifies
  when it carries the nonce and the key's number as signature; the primary log replays when
  it equals the one register value of the quote, the canonical log when it is empty.
\<close>

type_synonym demoState = "GCEInstanceInfo option \<times> string list"

definition demoDecode :: "bytes \<Rightarrow> string + asn1InstanceInfo" where
  "demoDecode b =
     (case b of
        [pn, i] \<Rightarrow>
          Inr \<lparr>Zone_der = ''z'', ProjectNumber_der = scast pn, ProjectID_der = ''p'',
               InstanceID_der = scast i, InstanceName_der = ''n'',
               SecurityProperties_der = None\<rparr>
      | [pn, i, v, pr] \<Rightarrow>
          Inr \<lparr>Zone_der = ''z'', ProjectNumber_der = scast pn, ProjectID_der = ''p'',
               InstanceID_der = scast i, InstanceName_der = ''n'',
               SecurityProperties_der =
                 Some \<lparr>SecurityVersion_der = Some (scast v),
                       IsProduction_der = Some (pr \<noteq> 0)\<rparr>\<rparr>
      | _ \<Rightarrow> Inl ''asn1: structure error'')"

definition vendorExtension :: "bytes \<Rightarrow> Extension" where
  "vendorExtension v =
     \<lparr>Id_ext = cloudComputeInstanceIdentifierOID, Critical = False, Value = v\<rparr>"

definition demoEnv :: "(nat, nat, demoState) env" where
  "demoEnv =
     \<lparr>SignatureHashAlgs = [0x000D, 0x000C, 0x000B],
      PubKeysEqual = (\<lambda>a b. a = b),
      DecodePublic =
        (\<lambda>b. case b of [] \<Rightarrow> Inl ''short public area'' | x # _ \<Rightarrow> Inr (unat x)),
      PublicKeyOf = (\<lambda>p. if p = 0 then Inl ''unsupported key type'' else Inr p),
      ParseCertificate =
        (\<lambda>b. case b of
           [] \<Rightarrow> Inl ''malformed certificate''
         | x # ids \<Rightarrow>
             if x = 255 then Inl ''malformed certificate''
             else
               Inr \<lparr>Raw = b, PublicKey = (if x = 0 then None else Some (unat x)),
                    UnhandledCriticalExtensions = map (\<lambda>i. [2, 5, 29, uint i]) ids,
                    Extensions = (if x = 5 then [vendorExtension [1, 2, 0, 1]] else [])\<rparr>),
      parseCerts = (\<lambda>bs. if [] \<in> set bs then Inl ''malformed certificate'' else Inr []),
      CertVerify =
        (\<lambda>c xo.
           if UnhandledCriticalExtensions c \<noteq> [] then Some ''unhandled critical extension''
           else if Raw c \<in> set (map Raw (Roots xo)) then None
           else Some ''certificate signed by unknown authority''),
      asn1Decode = demoDecode,
      VerifyQuote =
        (\<lambda>q k n.
           if QuoteData q \<noteq> n then Some ''quote extraData did not match expected''
           else if RawSig q \<noteq> [of_nat k] then Some ''signature verification failed''
           else None),
      parsePCClientEventLog =
        (\<lambda>log pcrs.
           if map snd (case pcrs of None \<Rightarrow> [] | Some p \<Rightarrow> PcrValues p) = [log]
           then Inr (None, [''pcclient'']) else Inl ''event log replay failed''),
      parseCanonicalEventLog =
        (\<lambda>log pcrs. if log = [] then Inr (None, [''cel'']) else Inl ''CEL replay failed''),
      emptyMachineState = (None, []),
      platformMachineState = (\<lambda>i. (i, [])),
      MergeMessage =
        (\<lambda>d s. (case fst s of None \<Rightarrow> fst d | Some i \<Rightarrow> Some i, snd d @ snd s))\<rparr>"

text \<open>A quote of hash algorithm \<open>h\<close> over one register of value \<open>v\<close>, signed by key 5
  over the nonce 7.\<close>

definition demoQuote :: "32 word \<Rightarrow> bytes \<Rightarrow> Quote" where
  "demoQuote h v =
     \<lparr>QuoteData = [7], RawSig = [5], Pcrs = Some \<lparr>Hash = h, PcrValues = [(0, v)]\<rparr>\<rparr>"

definition demoAttestation :: "bytes \<Rightarrow> Quote list \<Rightarrow> Attestation" where
  "demoAttestation cert qs =
     \<lparr>AkPub = [5], Quotes = qs, EventLog = [9], CanonicalEventLog = [],
      AkCert = cert, IntermediateCerts_att = []\<rparr>"

definition demoCert :: "bytes \<Rightarrow> nat option \<Rightarrow> ObjectIdentifier list \<Rightarrow> Extension list \<Rightarrow> nat Certificate" where
  "demoCert raw key unhandled exts =
     \<lparr>Raw = raw, PublicKey = key, UnhandledCriticalExtensions = unhandled, Extensions = exts\<rparr>"

definition demoOpts :: "nat list \<Rightarrow> bytes list \<Rightarrow> bool \<Rightarrow> nat VerifyOpts" where
  "demoOpts aks roots sha1 =
     \<lparr>Nonce = [7], TrustedAKs = aks, AllowSHA1 = sha1,
      TrustedRootCerts = map (\<lambda>r. demoCert r None [] []) roots,
      IntermediateCerts = []\<rparr>"

section \<open>Auxiliary facts\<close>

subsection \<open>The loops as list functions\<close>

lemma firstQuoteWithAlg_find:
  "firstQuoteWithAlg alg quotes = List.find (\<lambda>q. quoteAlg q = alg) quotes"
  by (induction quotes) auto

lemma firstQuoteWithAlg_None_iff:
  "firstQuoteWithAlg alg quotes = None \<longleftrightarrow> alg \<notin> quoteAlg ` set quotes"
  by (induction quotes) auto

lemma firstQuoteWithAlg_SomeD:
  "firstQuoteWithAlg alg quotes = Some q \<Longrightarrow> q \<in> set quotes \<and> quoteAlg q = alg"
  by (induction quotes) (auto split: if_splits)

lemma supportedQuotes_loop_acc:
  "supportedQuotes_loop quotes out algs = out @ supportedQuotes_loop quotes [] algs"
proof (induction algs arbitrary: out)
  case Nil
  show ?case by simp
next
  case (Cons a algs)
  show ?case
  proof (cases "firstQuoteWithAlg a quotes")
    case None
    then show ?thesis using Cons.IH [of out] by simp
  next
    case (Some q)
    then show ?thesis using Cons.IH [of "out @ [q]"] Cons.IH [of "[q]"] by simp
  qed
qed

lemma supportedQuotes_loop_Cons:
  "supportedQuotes_loop quotes [] (a # algs) =
     (case firstQuoteWithAlg a quotes of None \<Rightarrow> [] | Some q \<Rightarrow> [q])
       @ supportedQuotes_loop quotes [] algs"
  using supportedQuotes_loop_acc [of quotes "[q]" algs for q]
  by (simp split: option.split)

lemma supportedQuotes_loop_algs:
  "map quoteAlg (supportedQuotes_loop quotes [] algs) =
     filter (\<lambda>a. a \<in> quoteAlg ` set quotes) algs"
proof (induction algs)
  case Nil
  show ?case by simp
next
  case (Cons a algs)
  show ?case
  proof (cases "firstQuoteWithAlg a quotes")
    case None
    then show ?thesis
      using Cons.IH firstQuoteWithAlg_None_iff [of a quotes]
      by (simp add: supportedQuotes_loop_Cons del: supportedQuotes_loop.simps)
  next
    case (Some q)
    then show ?thesis
      using Cons.IH firstQuoteWithAlg_SomeD [OF Some]
      by (auto simp add: supportedQuotes_loop_Cons simp del: supportedQuotes_loop.simps)
  qed
qed

lemma supportedQuotes_loop_members:
  "q \<in> set (supportedQuotes_loop quotes [] algs) \<longleftrightarrow>
     (\<exists>a \<in> set algs. firstQuoteWithAlg a quotes = Some q)"
proof (induction algs)
  case Nil
  show ?case by simp
next
  case (Cons a algs)
  show ?case
    using Cons.IH
    by (auto simp add: supportedQuotes_loop_Cons simp del: supportedQuotes_loop.simps
        split: option.splits)
qed

lemma firstQuoteWithAlg_perm:
  assumes "set quotes' = set quotes" and "inj_on quoteAlg (set quotes)"
  shows "firstQuoteWithAlg a quotes' = firstQuoteWithAlg a quotes"
proof (cases "firstQuoteWithAlg a quotes")
  case None
  then show ?thesis
    using assms(1) firstQuoteWithAlg_None_iff [of a quotes] firstQuoteWithAlg_None_iff [of a quotes']
    by simp
next
  case (Some q)
  then have q: "q \<in> set quotes" "quoteAlg q = a"
    using firstQuoteWithAlg_SomeD by blast+
  then have "firstQuoteWithAlg a quotes' \<noteq> None"
    using assms(1) firstQuoteWithAlg_None_iff [of a quotes'] by auto
  then obtain q' where q': "firstQuoteWithAlg a quotes' = Some q'" by auto
  then have "q' \<in> set quotes" "quoteAlg q' = a"
    using firstQuoteWithAlg_SomeD [OF q'] assms(1) by auto
  with q assms(2) have "q' = q" by (auto dest: inj_onD)
  with q' Some show ?thesis by simp
qed

lemma supportedQuotes_loop_perm:
  assumes "set quotes' = set quotes" and "inj_on quoteAlg (set quotes)"
  shows "supportedQuotes_loop quotes' [] algs = supportedQuotes_loop quotes [] algs"
proof (induction algs)
  case Nil
  show ?case by simp
next
  case (Cons a algs)
  then show ?case
    using firstQuoteWithAlg_perm [OF assms, of a]
    by (simp add: supportedQuotes_loop_Cons del: supportedQuotes_loop.simps)
qed

lemma filter_length_le_card:
  assumes "distinct algs" and "finite S"
  shows "length (filter (\<lambda>a. a \<in> S) algs) \<le> card S"
proof -
  have "distinct (filter (\<lambda>a. a \<in> S) algs)" using assms(1) by simp
  then have "length (filter (\<lambda>a. a \<in> S) algs) = card (set (filter (\<lambda>a. a \<in> S) algs))"
    by (rule distinct_card [symmetric])
  also have "\<dots> \<le> card S"
    using assms(2) by (intro card_mono) auto
  finally show ?thesis .
qed

lemma supportedQuotes_empty_iff:
  "supportedQuotes env quotes = [] \<longleftrightarrow> (\<forall>q \<in> set quotes. quoteAlg q \<notin> set (pcrHashAlgs env))"
proof -
  have "supportedQuotes env quotes = [] \<longleftrightarrow> map quoteAlg (supportedQuotes env quotes) = []"
    by simp
  also have "\<dots> \<longleftrightarrow> filter (\<lambda>a. a \<in> quoteAlg ` set quotes) (pcrHashAlgs env) = []"
    by (simp only: supportedQuotes_def supportedQuotes_loop_algs)
  also have "\<dots> \<longleftrightarrow> (\<forall>q \<in> set quotes. quoteAlg q \<notin> set (pcrHashAlgs env))"
    by (auto simp: filter_empty_conv)
  finally show ?thesis .
qed

lemma makePool_acc: "foldl (\<lambda>pool cert. pool @ [cert]) acc certs = acc @ certs"
  by (induction certs arbitrary: acc) simp_all

lemma makePool_eq: "makePool certs = certs"
  by (simp add: makePool_def makePool_acc)

lemma stripSubjectAltName_filter:
  "stripSubjectAltName exts xs = exts @ filter (\<lambda>e. e \<noteq> oidExtensionSubjectAltName) xs"
  by (induction xs arbitrary: exts) simp_all

lemma findRawInfo_find:
  "findRawInfo extensions =
     (case List.find (\<lambda>e. Id_ext e = cloudComputeInstanceIdentifierOID) extensions of
        None \<Rightarrow> [] | Some e \<Rightarrow> Value e)"
  by (induction extensions) simp_all

lemma validateAKPub_loop_iff:
  "validateAKPub_loop env ak trusted = None \<longleftrightarrow> (\<exists>t \<in> set trusted. PubKeysEqual env ak t)"
  by (induction trusted) auto

lemma validateAKPub_loop_cases:
  "validateAKPub_loop env ak trusted =
     (if \<exists>t \<in> set trusted. PubKeysEqual env ak t then None else Some KeyNotTrusted)"
  by (induction trusted) auto

lemma validateAKPub_cases:
  "validateAKPub env ak opts =
     (if \<exists>t \<in> set (TrustedAKs opts). PubKeysEqual env ak t then None else Some KeyNotTrusted)"
  by (simp add: validateAKPub_def validateAKPub_loop_cases)

subsection \<open>The steps of VerifyAttestation\<close>

lemma validateOpts_cases:
  "validateOpts opts =
     (if TrustedAKs opts = [] \<and> TrustedRootCerts opts = [] then Some NoTrustMechanism
      else if TrustedAKs opts \<noteq> [] \<and> TrustedRootCerts opts \<noteq> [] then Some MultipleTrustMechanisms
      else None)"
  by (simp add: validateOpts_def Let_def)

lemma validateAKCert_roots:
  assumes "TrustedRootCerts opts \<noteq> []"
  shows "validateAKCert env akCert opts =
     (case CertVerify env
             (akCert\<lparr>UnhandledCriticalExtensions :=
                filter (\<lambda>e. e \<noteq> oidExtensionSubjectAltName)
                  (UnhandledCriticalExtensions akCert)\<rparr>)
             (chainOptions opts) of
        Some e \<Rightarrow> Err (CertDidNotChain (External e))
      | None \<Rightarrow>
          (case getInstanceInfo env (Extensions akCert) of
             Inl e \<Rightarrow> Err (ErrorGettingInstanceInfo e)
           | Inr instanceInfo \<Rightarrow> Ok (Some (platformMachineState env instanceInfo))))"
  using assms
  by (simp add: validateAKCert_def Let_def makePool_eq stripSubjectAltName_filter chainOptions_def
      split: option.splits)

lemma validateAKCert_no_roots:
  assumes "TrustedRootCerts opts = []"
  shows "validateAKCert env akCert opts =
     (case PublicKey akCert of
        None \<Rightarrow> Panic InterfaceConversionNil
      | Some ak \<Rightarrow>
          (if \<exists>t \<in> set (TrustedAKs opts). PubKeysEqual env ak t then Ok None
           else Err KeyNotTrusted))"
  using assms
  by (simp add: validateAKCert_def validateAKPub_cases split: option.splits)

lemma establishAK_not_BadOptions:
  "establishAK env att opts = Err e \<Longrightarrow> e \<noteq> BadOptions x"
  by (auto simp: establishAK_def split: if_splits sum.splits option.splits res.splits)

lemma establishAK_seed:
  assumes "establishAK env att opts = Ok (ak, ms)"
  shows "(AkCert att = [] \<longrightarrow> ms = Some (emptyMachineState env))
    \<and> (AkCert att \<noteq> [] \<and> TrustedRootCerts opts = [] \<longrightarrow> ms = None)
    \<and> (AkCert att \<noteq> [] \<and> TrustedRootCerts opts \<noteq> [] \<longrightarrow>
          (\<exists>akCert instanceInfo. ParseCertificate env (AkCert att) = Inr akCert
             \<and> getInstanceInfo env (Extensions akCert) = Inr instanceInfo
             \<and> ms = Some (platformMachineState env instanceInfo)))"
  using assms
  by (auto simp: establishAK_def validateAKCert_def Let_def
      split: if_splits sum.splits option.splits res.splits)

lemma VerifyAttestation_valid_opts:
  "validateOpts opts = None \<Longrightarrow>
     VerifyAttestation env att opts =
       (case establishAK env att opts of
          Panic p \<Rightarrow> Panic p
        | Err e \<Rightarrow> Err e
        | Ok (akPubKey, machineState) \<Rightarrow>
            replayQuotes env att opts akPubKey machineState None
              (supportedQuotes env (Quotes att)))"
  by (simp add: VerifyAttestation_def)

lemma checkCandidate_Inr_iff:
  "checkCandidate env att opts ak q = Inr (celState, state) \<longleftrightarrow>
     VerifyQuote env q ak (Nonce opts) = None
     \<and> parsePCClientEventLog env (EventLog att) (GetPcrs q) = Inr state
     \<and> parseCanonicalEventLog env (CanonicalEventLog att) (GetPcrs q) = Inr celState
     \<and> (AllowSHA1 opts \<or> quoteAlg q \<noteq> AlgSHA1)"
  by (auto simp: checkCandidate_def quoteAlg_def Let_def split: option.splits sum.splits)

lemma candidatePasses_iff:
  "candidatePasses env att opts ak q \<longleftrightarrow> \<not> isl (checkCandidate env att opts ak q)"
  by (auto simp: candidatePasses_def checkCandidate_def quoteAlg_def Let_def
      split: option.splits sum.splits)

lemma not_passes_Inl:
  "\<not> candidatePasses env att opts ak q \<Longrightarrow> \<exists>e. checkCandidate env att opts ak q = Inl e"
  by (cases "checkCandidate env att opts ak q") (simp_all add: candidatePasses_iff)

lemma checkCandidate_Inl_cases:
  "checkCandidate env att opts ak q = Inl e \<Longrightarrow>
     (\<exists>m. e = FailedVerifyQuote (External m)) \<or> (\<exists>m. e = FailedValidatePCClientEventLog (External m))
     \<or> (\<exists>m. e = FailedValidateCanonicalEventLog (External m)) \<or> e = SHA1NotAllowed"
  by (auto simp: checkCandidate_def Let_def split: option.splits sum.splits if_splits)


lemma replayQuotes_pass_step:
  "checkCandidate env att opts ak q = Inr (celState, state) \<Longrightarrow>
     replayQuotes env att opts ak (Some seed) lastErr (q # qs) =
       Ok (Some (MergeMessage env (MergeMessage env seed celState) state))"
  by (simp add: protoMerge_def)

lemma replayQuotes_pass_step_nil:
  "checkCandidate env att opts ak q = Inr (celState, state) \<Longrightarrow>
     replayQuotes env att opts ak None lastErr (q # qs) = Panic MergeIntoNilMessage"
  by (simp add: protoMerge_def)

lemma replayQuotes_skip_failing:
  assumes "\<forall>c \<in> set pre. \<not> candidatePasses env att opts ak c" and "pre \<noteq> []"
  shows "\<exists>e. checkCandidate env att opts ak (last pre) = Inl e \<and>
     replayQuotes env att opts ak ms lastErr (pre @ rest) =
       replayQuotes env att opts ak ms (Some e) rest"
  using assms
proof (induction pre arbitrary: lastErr)
  case Nil
  then show ?case by simp
next
  case (Cons c pre)
  from Cons.prems obtain e where e: "checkCandidate env att opts ak c = Inl e"
    using not_passes_Inl [of env att opts ak c] by auto
  show ?case
  proof (cases "pre = []")
    case True
    with e show ?thesis by simp
  next
    case False
    with Cons.IH [of "Some e"] Cons.prems e show ?thesis by simp
  qed
qed

lemma replayQuotes_skip_prefix:
  assumes "\<forall>c \<in> set pre. \<not> candidatePasses env att opts ak c"
  shows "\<exists>lastErr'. replayQuotes env att opts ak ms lastErr (pre @ rest) =
       replayQuotes env att opts ak ms lastErr' rest"
proof (cases "pre = []")
  case True
  then show ?thesis by auto
next
  case False
  with replayQuotes_skip_failing [OF assms False, of ms lastErr rest] show ?thesis by blast
qed

lemma replayQuotes_first_pass:
  assumes "\<forall>c \<in> set pre. \<not> candidatePasses env att opts ak c"
    and "checkCandidate env att opts ak q = Inr (celState, state)"
  shows "replayQuotes env att opts ak (Some seed) lastErr (pre @ q # post) =
       Ok (Some (MergeMessage env (MergeMessage env seed celState) state))"
proof -
  obtain lastErr' where "replayQuotes env att opts ak (Some seed) lastErr (pre @ q # post) =
      replayQuotes env att opts ak (Some seed) lastErr' (q # post)"
    using replayQuotes_skip_prefix [OF assms(1)] by blast
  then show ?thesis
    using replayQuotes_pass_step [OF assms(2)] by simp
qed

lemma replayQuotes_nil_seed:
  assumes "\<exists>q \<in> set qs. candidatePasses env att opts ak q"
  shows "replayQuotes env att opts ak None lastErr qs = Panic MergeIntoNilMessage"
  using assms
proof (induction qs arbitrary: lastErr)
  case Nil
  then show ?case by simp
next
  case (Cons c qs)
  show ?case
  proof (cases "checkCandidate env att opts ak c")
    case (Inl e)
    then have "\<not> candidatePasses env att opts ak c" by (simp add: candidatePasses_iff)
    with Cons.prems have "\<exists>q \<in> set qs. candidatePasses env att opts ak q" by auto
    from Cons.IH [OF this] Inl show ?thesis by simp
  next
    case (Inr p)
    then show ?thesis by (cases p) (simp add: protoMerge_def)
  qed
qed

lemma replayQuotes_all_fail_nonempty:
  assumes "\<forall>c \<in> set qs. \<not> candidatePasses env att opts ak c" and "qs \<noteq> []"
  shows "\<exists>e. checkCandidate env att opts ak (last qs) = Inl e \<and>
     replayQuotes env att opts ak ms lastErr qs = Err e"
  using replayQuotes_skip_failing [OF assms, of ms lastErr "[]"] by auto

lemma replayQuotes_not_BadOptions:
  assumes "replayQuotes env att opts ak ms lastErr qs = Err e"
    and "\<forall>x. lastErr \<noteq> Some (BadOptions x)"
  shows "e \<noteq> BadOptions x"
  using assms
proof (induction qs arbitrary: lastErr)
  case Nil
  then show ?case by (auto split: option.splits)
next
  case (Cons c qs)
  show ?case
  proof (cases "checkCandidate env att opts ak c")
    case (Inl e')
    then have "\<forall>x. Some e' \<noteq> Some (BadOptions x)"
      using checkCandidate_Inl_cases [OF Inl] by auto
    from Cons.IH [OF _ this] Cons.prems(1) Inl show ?thesis by simp
  next
    case (Inr p)
    with Cons.prems(1) show ?thesis
      by (cases p) (auto simp: protoMerge_def split: option.splits res.splits)
  qed
qed

subsection \<open>Running the concrete environment\<close>

lemma demo_pcrHashAlgs: "pcrHashAlgs demoEnv = [0x000D, 0x000C, 0x000B, 0x0004]"
  by (simp add: pcrHashAlgs_def demoEnv_def AlgSHA1_def)

lemma demoQuote_alg: "quoteAlg (demoQuote h v) = ucast h"
  by (simp add: quoteAlg_def GetHash_def GetPcrs_def demoQuote_def)

lemma demo_supportedQuotes:
  "supportedQuotes demoEnv [demoQuote 4 [9], demoQuote 11 [9], demoQuote 3 [9], demoQuote 13 [9]]
     = [demoQuote 13 [9], demoQuote 11 [9], demoQuote 4 [9]]"
  by (simp add: supportedQuotes_def demo_pcrHashAlgs demoQuote_alg)

lemma demo_validateOpts:
  "validateOpts (demoOpts aks roots b) =
     (if aks = [] \<and> roots = [] then Some NoTrustMechanism
      else if aks \<noteq> [] \<and> roots \<noteq> [] then Some MultipleTrustMechanisms else None)"
  by (simp add: validateOpts_def demoOpts_def Let_def)

lemma demo_establishAK_key:
  "establishAK demoEnv (demoAttestation [] qs) (demoOpts [5] [] b) = Ok (5, Some (None, []))"
  by (simp add: establishAK_def demoAttestation_def demoOpts_def demoEnv_def validateAKPub_def)

lemma demo_getInstanceInfo:
  "getInstanceInfo demoEnv [vendorExtension [1, 2, 0, 1]] =
     Inr (Some \<lparr>Zone_pb = ''z'', ProjectId_pb = ''p'', ProjectNumber_pb = 1,
                InstanceName_pb = ''n'', InstanceId_pb = 2\<rparr>)"
  by (simp add: getInstanceInfo_def vendorExtension_def asn1_Unmarshal_def demoEnv_def
      demoDecode_def storeInstanceInfo_def storeSecurityProperties_def word_sless_alt)

lemma demo_cert:
  "ParseCertificate demoEnv [5, 17] =
     Inr (demoCert [5, 17] (Some 5) [oidExtensionSubjectAltName] [vendorExtension [1, 2, 0, 1]])"
  by (simp add: demoEnv_def demoCert_def oidExtensionSubjectAltName_def)

lemma demo_validateAKCert_root:
  "validateAKCert demoEnv
       (demoCert [5, 17] (Some 5) [oidExtensionSubjectAltName] [vendorExtension [1, 2, 0, 1]])
       (demoOpts [] [[5, 17]] b) =
     Ok (Some (Some \<lparr>Zone_pb = ''z'', ProjectId_pb = ''p'', ProjectNumber_pb = 1,
                    InstanceName_pb = ''n'', InstanceId_pb = 2\<rparr>, []))"
proof -
  have v: "CertVerify demoEnv
      (demoCert [5, 17] (Some 5) [] [vendorExtension [1, 2, 0, 1]])
      \<lparr>Roots = [demoCert [5, 17] None [] []], Intermediates = [], KeyUsages = [ExtKeyUsageAny]\<rparr>
        = None"
    by (simp add: demoEnv_def demoCert_def)
  have p: "platformMachineState demoEnv i = (i, [])" for i
    by (simp add: demoEnv_def)
  show ?thesis
    using v
    by (simp add: validateAKCert_def demoOpts_def makePool_eq stripSubjectAltName_filter
        demoCert_def demo_getInstanceInfo p)
qed

lemma demoCert_sel:
  "Raw (demoCert r k u e) = r" "PublicKey (demoCert r k u e) = k"
  "UnhandledCriticalExtensions (demoCert r k u e) = u" "Extensions (demoCert r k u e) = e"
  by (simp_all add: demoCert_def)

lemma demo_establishAK_root:
  "establishAK demoEnv (demoAttestation [5, 17] qs) (demoOpts [] [[5, 17]] b) =
     Ok (5, Some (Some \<lparr>Zone_pb = ''z'', ProjectId_pb = ''p'', ProjectNumber_pb = 1,
                    InstanceName_pb = ''n'', InstanceId_pb = 2\<rparr>, []))"
proof -
  have c: "parseCerts demoEnv [] = Inr []" by (simp add: demoEnv_def)
  have a: "AkCert (demoAttestation [5, 17] qs) = [5, 17]"
    "IntermediateCerts_att (demoAttestation [5, 17] qs) = []"
    by (simp_all add: demoAttestation_def)
  show ?thesis
    by (simp add: establishAK_def a demo_cert c demo_validateAKCert_root demoCert_sel)
qed

lemma demo_checkCandidate:
  "checkCandidate demoEnv (demoAttestation c qs) (demoOpts aks roots b) 5 (demoQuote h v) =
     (if v \<noteq> [9] then Inl (FailedValidatePCClientEventLog (External ''event log replay failed''))
      else if \<not> b \<and> (ucast h :: Algorithm) = 4 then Inl SHA1NotAllowed
      else Inr ((None, [''cel'']), (None, [''pcclient''])))"
  by (simp add: checkCandidate_def demoAttestation_def demoOpts_def demoQuote_def demoEnv_def
      GetPcrs_def GetHash_def AlgSHA1_def)

lemma demo_candidatePasses:
  "candidatePasses demoEnv (demoAttestation c qs) (demoOpts aks roots b) 5 (demoQuote h v) =
     (v = [9] \<and> (b \<or> (ucast h :: Algorithm) \<noteq> 4))"
  by (auto simp add: candidatePasses_iff demo_checkCandidate)

lemma demo_Quotes: "Quotes (demoAttestation c qs) = qs"
  by (simp add: demoAttestation_def)

lemma demo_establishAK_cert_key:
  "establishAK demoEnv (demoAttestation [5] qs) (demoOpts [5] [] b) = Ok (5, None)"
proof -
  have c: "ParseCertificate demoEnv [5] =
      Inr (demoCert [5] (Some 5) [] [vendorExtension [1, 2, 0, 1]])"
    by (simp add: demoEnv_def demoCert_def)
  have p: "parseCerts demoEnv [] = Inr []" by (simp add: demoEnv_def)
  have a: "AkCert (demoAttestation [5] qs) = [5]"
    "IntermediateCerts_att (demoAttestation [5] qs) = []"
    by (simp_all add: demoAttestation_def)
  have r: "TrustedRootCerts (demoOpts [5] [] b) = []" by (simp add: demoOpts_def)
  have v: "validateAKCert demoEnv (demoCert [5] (Some 5) [] [vendorExtension [1, 2, 0, 1]])
      (demoOpts [5] [] b) = Ok None"
    by (simp add: validateAKCert_no_roots [OF r] demoCert_sel)
      (simp add: demoOpts_def demoEnv_def)
  show ?thesis
    by (simp add: establishAK_def a c p v demoCert_sel)
qed

lemma demo_find_vendor:
  "List.find (\<lambda>e. Id_ext e = cloudComputeInstanceIdentifierOID) [vendorExtension v]
     = Some (vendorExtension v)"
  by (simp add: vendorExtension_def)

lemma demo_Unmarshal4:
  "asn1_Unmarshal demoEnv [pn, i, v, pr] =
     Inr \<lparr>Zone = ''z'', ProjectNumber = scast pn, ProjectID = ''p'', InstanceID = scast i,
          InstanceName = ''n'',
          SecurityProperties = \<lparr>SecurityVersion = scast v, IsProduction = (pr \<noteq> 0)\<rparr>\<rparr>"
  by (simp add: asn1_Unmarshal_def demoEnv_def demoDecode_def storeInstanceInfo_def
      storeSecurityProperties_def)

lemma vendorExtension_Value: "Value (vendorExtension v) = v"
  by (simp add: vendorExtension_def)

lemma vendorExtension_Id: "Id_ext (vendorExtension v) = cloudComputeInstanceIdentifierOID"
  by (simp add: vendorExtension_def)

section \<open>Properties\<close>

subsection \<open>A certificate checked against the trusted keys\<close>

text \<open>
  Claim C1. The claim is that an attestation with a certificate, verified with trusted
  keys and no trusted root, yields a machine state and no error as soon as the
  certificate's key is trusted and a candidate passes. The code does not: without a trusted
  root \<^verbatim>\<open>validateAKCert\<close> returns \<^verbatim>\<open>nil, validateAKPub(...)\<close>, a nil machine state beside
  a nil error, where the path without a certificate starts from \<^verbatim>\<open>&pb.MachineState{}\<close>.
  The options are valid and the identity step succeeds with the certificate's key and no
  state, so at the first passing candidate \<^verbatim>\<open>proto.Merge\<close> is handed a nil destination and
  the call panics.
\<close>

theorem VerifyAttestation_certificate_with_trusted_key:
  assumes "TrustedAKs opts \<noteq> []" and "TrustedRootCerts opts = []"
    and "AkCert att \<noteq> []"
    and "ParseCertificate env (AkCert att) = Inr akCert"
    and "parseCerts env (IntermediateCerts_att att) = Inr certs"
    and "PublicKey akCert = Some ak"
    and "\<exists>t \<in> set (TrustedAKs opts). PubKeysEqual env ak t"
    and "\<exists>q \<in> set (supportedQuotes env (Quotes att)). candidatePasses env att opts ak q"
  shows "validateOpts opts = None
       \<and> validateAKCert env akCert (opts\<lparr>IntermediateCerts := IntermediateCerts opts @ certs\<rparr>)
           = Ok None
       \<and> establishAK env att opts = Ok (ak, None)
       \<and> VerifyAttestation env att opts = Panic MergeIntoNilMessage"
proof -
  let ?opts = "opts\<lparr>IntermediateCerts := IntermediateCerts opts @ certs\<rparr>"
  have v: "validateOpts opts = None"
    using assms(1,2) by (simp add: validateOpts_cases)
  have r: "TrustedRootCerts ?opts = []" using assms(2) by simp
  have c: "validateAKCert env akCert ?opts = Ok None"
    using assms(6,7) by (simp add: validateAKCert_no_roots [OF r])
  have e: "establishAK env att opts = Ok (ak, None)"
    using assms(3-6) c by (simp add: establishAK_def)
  have "VerifyAttestation env att opts =
      replayQuotes env att opts ak None None (supportedQuotes env (Quotes att))"
    using v e by (simp add: VerifyAttestation_valid_opts)
  also have "\<dots> = Panic MergeIntoNilMessage"
    by (rule replayQuotes_nil_seed [OF assms(8)])
  finally show ?thesis using v c e by simp
qed

theorem VerifyAttestation_certificate_with_trusted_key_witness:
  "VerifyAttestation demoEnv (demoAttestation [5] [demoQuote 11 [9]]) (demoOpts [5] [] False)
     = Panic MergeIntoNilMessage"
proof -
  let ?att = "demoAttestation [5] [demoQuote 11 [9]]"
  let ?opts = "demoOpts [5] [] False"
  have 1: "TrustedAKs ?opts \<noteq> []" and 2: "TrustedRootCerts ?opts = []"
    by (simp_all add: demoOpts_def)
  have 3: "AkCert ?att \<noteq> []" by (simp add: demoAttestation_def)
  have 4: "ParseCertificate demoEnv (AkCert ?att) =
      Inr (demoCert [5] (Some 5) [] [vendorExtension [1, 2, 0, 1]])"
    by (simp add: demoAttestation_def demoEnv_def demoCert_def)
  have 5: "parseCerts demoEnv (IntermediateCerts_att ?att) = Inr []"
    by (simp add: demoAttestation_def demoEnv_def)
  have 6: "PublicKey (demoCert [5] (Some 5) [] [vendorExtension [1, 2, 0, 1]]) = Some 5"
    by (simp add: demoCert_sel)
  have 7: "\<exists>t \<in> set (TrustedAKs ?opts). PubKeysEqual demoEnv 5 t"
    by (simp add: demoOpts_def demoEnv_def)
  have 8: "\<exists>q \<in> set (supportedQuotes demoEnv (Quotes ?att)). candidatePasses demoEnv ?att ?opts 5 q"
    by (simp add: demo_Quotes supportedQuotes_def demo_pcrHashAlgs demoQuote_alg
        demo_candidatePasses)
  from VerifyAttestation_certificate_with_trusted_key [OF 1 2 3 4 5 6 7 8]
  show ?thesis by (elim conjE)
qed

subsection \<open>Options are validated first\<close>

text \<open>
  Claim C2. \<^verbatim>\<open>VerifyAttestation\<close> fails with the configuration error exactly when the
  options do not name exactly one trust mechanism: with no trusted key and no trusted root
  it returns "bad options: no trust mechanism provided", with both it returns "bad
  options: multiple trust mechanisms provided", and with exactly one of the two
  \<^verbatim>\<open>validateOpts\<close> returns nil and the call never returns a "bad options" error. The
  result of the two failing cases is the same for every attestation and every collaborator:
  nothing of the identity or of the quotes is looked at.
\<close>

theorem VerifyAttestation_options_checked_first:
  "(TrustedAKs opts = [] \<and> TrustedRootCerts opts = [] \<longrightarrow>
      validateOpts opts = Some NoTrustMechanism
      \<and> VerifyAttestation env att opts = Err (BadOptions NoTrustMechanism))
   \<and> (TrustedAKs opts \<noteq> [] \<and> TrustedRootCerts opts \<noteq> [] \<longrightarrow>
      validateOpts opts = Some MultipleTrustMechanisms
      \<and> VerifyAttestation env att opts = Err (BadOptions MultipleTrustMechanisms))
   \<and> ((TrustedAKs opts = []) \<noteq> (TrustedRootCerts opts = []) \<longrightarrow>
      validateOpts opts = None
      \<and> (\<forall>e. VerifyAttestation env att opts \<noteq> Err (BadOptions e)))"
proof (intro conjI impI)
  assume "TrustedAKs opts = [] \<and> TrustedRootCerts opts = []"
  then show "validateOpts opts = Some NoTrustMechanism"
    and "VerifyAttestation env att opts = Err (BadOptions NoTrustMechanism)"
    by (simp_all add: VerifyAttestation_def validateOpts_cases)
next
  assume "TrustedAKs opts \<noteq> [] \<and> TrustedRootCerts opts \<noteq> []"
  then show "validateOpts opts = Some MultipleTrustMechanisms"
    and "VerifyAttestation env att opts = Err (BadOptions MultipleTrustMechanisms)"
    by (simp_all add: VerifyAttestation_def validateOpts_cases)
next
  assume one: "(TrustedAKs opts = []) \<noteq> (TrustedRootCerts opts = [])"
  then show ok: "validateOpts opts = None"
    by (auto simp: validateOpts_cases)
  show "\<forall>e. VerifyAttestation env att opts \<noteq> Err (BadOptions e)"
  proof (intro allI notI)
    fix e
    assume bad: "VerifyAttestation env att opts = Err (BadOptions e)"
    show False
    proof (cases "establishAK env att opts")
      case (Panic p)
      with bad ok show False by (simp add: VerifyAttestation_valid_opts)
    next
      case (Err e')
      with bad ok establishAK_not_BadOptions [OF Err, of e] show False
        by (simp add: VerifyAttestation_valid_opts)
    next
      case (Ok r)
      obtain ak ms where r: "r = (ak, ms)" by (cases r)
      with bad ok Ok have
        "replayQuotes env att opts ak ms None (supportedQuotes env (Quotes att)) = Err (BadOptions e)"
        by (simp add: VerifyAttestation_valid_opts)
      from replayQuotes_not_BadOptions [OF this, of e] show False by simp
    qed
  qed
qed

theorem VerifyAttestation_options_checked_first_witness:
  "VerifyAttestation demoEnv (demoAttestation [] [demoQuote 11 [9]]) (demoOpts [] [] False)
     = Err (BadOptions NoTrustMechanism)
   \<and> VerifyAttestation demoEnv (demoAttestation [] [demoQuote 11 [9]]) (demoOpts [5] [[5]] False)
     = Err (BadOptions MultipleTrustMechanisms)
   \<and> validateOpts (demoOpts [5] [] False) = None
   \<and> VerifyAttestation demoEnv (demoAttestation [] [demoQuote 11 [9]]) (demoOpts [5] [] False)
     \<noteq> Err (BadOptions NoTrustMechanism)"
  using VerifyAttestation_options_checked_first
      [of "demoOpts [] [] False" demoEnv "demoAttestation [] [demoQuote 11 [9]]"]
    VerifyAttestation_options_checked_first
      [of "demoOpts [5] [[5]] False" demoEnv "demoAttestation [] [demoQuote 11 [9]]"]
    VerifyAttestation_options_checked_first
      [of "demoOpts [5] [] False" demoEnv "demoAttestation [] [demoQuote 11 [9]]"]
  by (simp add: demoOpts_def)

subsection \<open>The outcome of the candidate loop\<close>

text \<open>
  Claim C3. Let the identity step give the key \<open>ak\<close> and the machine state \<open>ms\<close> the loop
  starts from, and let \<open>q\<close> be the first candidate, in preference order, whose quote
  verifies, whose two logs replay and which the SHA-1 policy admits. The candidates after
  \<open>q\<close> play no part in the result. When \<open>ms\<close> is a state, \<^verbatim>\<open>VerifyAttestation\<close> returns,
  with no error, that state merged with the canonical-log fragment and then with the
  primary-log fragment of \<open>q\<close>, as the claim says: \<open>ms\<close> is the empty machine state when
  the attestation has no certificate, and the platform state holding the decoded instance
  information when the certificate was verified against the trusted roots. But when the
  attestation has a certificate and the options have no trusted root, \<open>ms\<close> is nil, and
  the call panics in the first merge instead of returning: the defect of C1.
\<close>

theorem VerifyAttestation_first_passing_candidate:
  assumes "validateOpts opts = None"
    and "establishAK env att opts = Ok (ak, ms)"
    and "supportedQuotes env (Quotes att) = pre @ q # post"
    and "\<forall>c \<in> set pre. \<not> candidatePasses env att opts ak c"
    and "VerifyQuote env q ak (Nonce opts) = None"
    and "parsePCClientEventLog env (EventLog att) (GetPcrs q) = Inr state"
    and "parseCanonicalEventLog env (CanonicalEventLog att) (GetPcrs q) = Inr celState"
    and "AllowSHA1 opts \<or> quoteAlg q \<noteq> AlgSHA1"
  shows "VerifyAttestation env att opts =
           (case ms of
              None \<Rightarrow> Panic MergeIntoNilMessage
            | Some seed \<Rightarrow> Ok (Some (MergeMessage env (MergeMessage env seed celState) state)))
       \<and> (ms = None) = (AkCert att \<noteq> [] \<and> TrustedRootCerts opts = [])
       \<and> (AkCert att = [] \<longrightarrow> ms = Some (emptyMachineState env))
       \<and> (AkCert att \<noteq> [] \<and> TrustedRootCerts opts \<noteq> [] \<longrightarrow>
            (\<exists>akCert instanceInfo. ParseCertificate env (AkCert att) = Inr akCert
               \<and> getInstanceInfo env (Extensions akCert) = Inr instanceInfo
               \<and> ms = Some (platformMachineState env instanceInfo)))"
proof -
  have pass: "checkCandidate env att opts ak q = Inr (celState, state)"
    using assms(5-8) by (simp add: checkCandidate_Inr_iff)
  have run: "VerifyAttestation env att opts =
      replayQuotes env att opts ak ms None (pre @ q # post)"
    using assms(1-3) by (simp add: VerifyAttestation_valid_opts)
  have res: "VerifyAttestation env att opts =
      (case ms of
         None \<Rightarrow> Panic MergeIntoNilMessage
       | Some seed \<Rightarrow> Ok (Some (MergeMessage env (MergeMessage env seed celState) state)))"
  proof (cases ms)
    case None
    have "candidatePasses env att opts ak q"
      using pass by (simp add: candidatePasses_iff)
    then have "\<exists>c \<in> set (pre @ q # post). candidatePasses env att opts ak c" by simp
    from replayQuotes_nil_seed [OF this, of None] run None show ?thesis by simp
  next
    case (Some seed)
    with run replayQuotes_first_pass [OF assms(4) pass, of seed None post] show ?thesis
      by simp
  qed
  note seed = establishAK_seed [OF assms(2)]
  from seed have s0: "(ms = None) = (AkCert att \<noteq> [] \<and> TrustedRootCerts opts = [])"
    by (cases "AkCert att = []"; cases "TrustedRootCerts opts = []") auto
  from seed have s1: "AkCert att = [] \<longrightarrow> ms = Some (emptyMachineState env)" by simp
  from seed have s2: "AkCert att \<noteq> [] \<and> TrustedRootCerts opts \<noteq> [] \<longrightarrow>
      (\<exists>akCert instanceInfo. ParseCertificate env (AkCert att) = Inr akCert
         \<and> getInstanceInfo env (Extensions akCert) = Inr instanceInfo
         \<and> ms = Some (platformMachineState env instanceInfo))"
    by simp
  from res s0 s1 s2 show ?thesis by (intro conjI)
qed

theorem VerifyAttestation_first_passing_candidate_witness:
  "VerifyAttestation demoEnv
       (demoAttestation [5] [demoQuote 4 [9], demoQuote 11 [9], demoQuote 13 [8]])
       (demoOpts [5] [] False) = Panic MergeIntoNilMessage
   \<and> VerifyAttestation demoEnv
       (demoAttestation [] [demoQuote 4 [9], demoQuote 11 [9], demoQuote 13 [8]])
       (demoOpts [5] [] False) = Ok (Some (None, [''cel'', ''pcclient'']))
   \<and> VerifyAttestation demoEnv
       (demoAttestation [5, 17] [demoQuote 4 [9], demoQuote 11 [9], demoQuote 13 [8]])
       (demoOpts [] [[5, 17]] False) =
       Ok (Some (Some \<lparr>Zone_pb = ''z'', ProjectId_pb = ''p'', ProjectNumber_pb = 1,
                       InstanceName_pb = ''n'', InstanceId_pb = 2\<rparr>,
                 [''cel'', ''pcclient'']))"
proof -
  let ?qs = "[demoQuote 4 [9], demoQuote 11 [9], demoQuote 13 [8]]"
  have m: "MergeMessage demoEnv d s =
      (case fst s of None \<Rightarrow> fst d | Some i \<Rightarrow> Some i, snd d @ snd s)" for d s
    by (simp add: demoEnv_def)
  have v: "validateOpts (demoOpts [5] [] False) = None"
    "validateOpts (demoOpts [] [[5, 17]] False) = None"
    by (simp_all add: demo_validateOpts)
  have c: "supportedQuotes demoEnv (Quotes (demoAttestation cert ?qs)) =
      [demoQuote 13 [8]] @ demoQuote 11 [9] # [demoQuote 4 [9]]" for cert
    by (simp add: demo_Quotes supportedQuotes_def demo_pcrHashAlgs demoQuote_alg)
  have f: "\<forall>x \<in> set [demoQuote 13 [8]].
      \<not> candidatePasses demoEnv (demoAttestation cert ?qs) (demoOpts aks roots b) 5 x"
    for cert aks roots b
    by (simp add: demo_candidatePasses)
  have q: "VerifyQuote demoEnv (demoQuote h w) 5 (Nonce (demoOpts aks roots b)) = None"
    for h w aks roots b
    by (simp add: demoEnv_def demoQuote_def demoOpts_def)
  have p: "parsePCClientEventLog demoEnv (EventLog (demoAttestation cert qs))
      (GetPcrs (demoQuote h [9])) = Inr (None, [''pcclient''])" for cert qs h
    by (simp add: demoEnv_def demoQuote_def demoAttestation_def GetPcrs_def)
  have l: "parseCanonicalEventLog demoEnv (CanonicalEventLog (demoAttestation cert qs))
      (GetPcrs (demoQuote h [9])) = Inr (None, [''cel''])" for cert qs h
    by (simp add: demoEnv_def demoAttestation_def)
  have a: "AllowSHA1 (demoOpts aks roots b) \<or> quoteAlg (demoQuote 11 w) \<noteq> AlgSHA1"
    for aks roots b w
    by (simp add: demoQuote_alg AlgSHA1_def)
  from VerifyAttestation_first_passing_candidate
      [OF v(1) demo_establishAK_cert_key c f q p l a]
  have 1: "VerifyAttestation demoEnv (demoAttestation [5] ?qs) (demoOpts [5] [] False)
      = Panic MergeIntoNilMessage"
    by simp
  from VerifyAttestation_first_passing_candidate
      [OF v(1) demo_establishAK_key c f q p l a]
  have 2: "VerifyAttestation demoEnv (demoAttestation [] ?qs) (demoOpts [5] [] False)
      = Ok (Some (None, [''cel'', ''pcclient'']))"
    by (simp add: m)
  from VerifyAttestation_first_passing_candidate
      [OF v(2) demo_establishAK_root c f q p l a]
  have 3: "VerifyAttestation demoEnv (demoAttestation [5, 17] ?qs) (demoOpts [] [[5, 17]] False)
      = Ok (Some (Some \<lparr>Zone_pb = ''z'', ProjectId_pb = ''p'', ProjectNumber_pb = 1,
                       InstanceName_pb = ''n'', InstanceId_pb = 2\<rparr>,
                 [''cel'', ''pcclient'']))"
    by (simp add: m)
  from 1 2 3 show ?thesis by (intro conjI)
qed

text \<open>
  Claim C4. Take a run that gets past the options and the identity, and in which no
  candidate passes. If there is at least one candidate, the call returns the error
  recorded for the last candidate of the preference order, and that error is never the
  "attestation does not contain a supported quote" error. If there is no candidate, the
  call returns that error; and there is no candidate exactly when no quote of the
  attestation has an algorithm of the preference list.
\<close>

theorem VerifyAttestation_all_candidates_fail:
  assumes "validateOpts opts = None"
    and "establishAK env att opts = Ok (ak, ms)"
    and "\<forall>q \<in> set (supportedQuotes env (Quotes att)). \<not> candidatePasses env att opts ak q"
  shows "(supportedQuotes env (Quotes att) \<noteq> [] \<longrightarrow>
            (\<exists>e. checkCandidate env att opts ak (last (supportedQuotes env (Quotes att))) = Inl e
                 \<and> e \<noteq> NoSupportedQuote
                 \<and> VerifyAttestation env att opts = Err e))
       \<and> (supportedQuotes env (Quotes att) = [] \<longrightarrow>
            VerifyAttestation env att opts = Err NoSupportedQuote)
       \<and> ((supportedQuotes env (Quotes att) = []) =
            (\<forall>q \<in> set (Quotes att). quoteAlg q \<notin> set (pcrHashAlgs env)))"
proof (intro conjI impI)
  let ?cands = "supportedQuotes env (Quotes att)"
  have run: "VerifyAttestation env att opts = replayQuotes env att opts ak ms None ?cands"
    using assms(1,2) by (simp add: VerifyAttestation_valid_opts)
  {
    assume ne: "?cands \<noteq> []"
    from replayQuotes_all_fail_nonempty [OF assms(3) ne, of ms None]
    obtain e where e: "checkCandidate env att opts ak (last ?cands) = Inl e"
      and r: "replayQuotes env att opts ak ms None ?cands = Err e" by blast
    from checkCandidate_Inl_cases [OF e] have "e \<noteq> NoSupportedQuote" by auto
    with e r run
    show "\<exists>e. checkCandidate env att opts ak (last ?cands) = Inl e
        \<and> e \<noteq> NoSupportedQuote \<and> VerifyAttestation env att opts = Err e"
      by auto
  }
  {
    assume "?cands = []"
    with run show "VerifyAttestation env att opts = Err NoSupportedQuote" by simp
  }
  show "(?cands = []) = (\<forall>q \<in> set (Quotes att). quoteAlg q \<notin> set (pcrHashAlgs env))"
    by (rule supportedQuotes_empty_iff)
qed

theorem VerifyAttestation_all_candidates_fail_witness:
  "VerifyAttestation demoEnv (demoAttestation [] [demoQuote 4 [9], demoQuote 11 [8]])
       (demoOpts [5] [] False) = Err SHA1NotAllowed
   \<and> VerifyAttestation demoEnv (demoAttestation [] [demoQuote 3 [9]])
       (demoOpts [5] [] False) = Err NoSupportedQuote"
proof -
  let ?opts = "demoOpts [5] [] False"
  let ?att = "demoAttestation [] [demoQuote 4 [9], demoQuote 11 [8]]"
  let ?att' = "demoAttestation [] [demoQuote 3 [9]]"
  have v: "validateOpts ?opts = None" by (simp add: demo_validateOpts)
  have c: "supportedQuotes demoEnv (Quotes ?att) = [demoQuote 11 [8], demoQuote 4 [9]]"
    by (simp add: demo_Quotes supportedQuotes_def demo_pcrHashAlgs demoQuote_alg)
  have c': "supportedQuotes demoEnv (Quotes ?att') = []"
    by (simp add: demo_Quotes supportedQuotes_def demo_pcrHashAlgs demoQuote_alg)
  have f: "\<forall>q \<in> set (supportedQuotes demoEnv (Quotes ?att)).
      \<not> candidatePasses demoEnv ?att ?opts 5 q"
    by (simp add: c demo_candidatePasses)
  have f': "\<forall>q \<in> set (supportedQuotes demoEnv (Quotes ?att')).
      \<not> candidatePasses demoEnv ?att' ?opts 5 q"
    by (simp add: c')
  from VerifyAttestation_all_candidates_fail [OF v demo_establishAK_key f]
  have "VerifyAttestation demoEnv ?att ?opts = Err SHA1NotAllowed"
    by (auto simp: c demo_checkCandidate)
  moreover from VerifyAttestation_all_candidates_fail [OF v demo_establishAK_key f']
  have "VerifyAttestation demoEnv ?att' ?opts = Err NoSupportedQuote"
    by (simp add: c')
  ultimately show ?thesis by simp
qed



subsection \<open>The order of the candidates\<close>

text \<open>
  Claim C6. \<^verbatim>\<open>supportedQuotes\<close> walks \<^verbatim>\<open>pcrHashAlgs\<close>, the signature hash algorithms
  followed by SHA-1, and for each algorithm takes the first quote of the input that has it.
  So the algorithms of the output are the preference list restricted to the algorithms
  present in the input, in preference order; a quote of any other algorithm is dropped;
  each quote of the output is the first of its algorithm in the input. The sequence of
  algorithms depends only on the set of algorithms present, never on the order of the
  input, and when the input has at most one quote per algorithm the whole output is the
  same for every reordering. The list \<^verbatim>\<open>internal.SignatureHashAlgs\<close> is not part of the
  file; where it has no repetition and no SHA-1, the output has at most one quote per
  algorithm and is no longer than the number of distinct algorithms of the input.
\<close>

theorem supportedQuotes_preference_order:
  assumes "distinct (pcrHashAlgs env)"
  shows "pcrHashAlgs env = SignatureHashAlgs env @ [AlgSHA1]
    \<and> map quoteAlg (supportedQuotes env quotes) =
        filter (\<lambda>a. a \<in> quoteAlg ` set quotes) (pcrHashAlgs env)
    \<and> (\<forall>q \<in> set (supportedQuotes env quotes).
          List.find (\<lambda>q'. quoteAlg q' = quoteAlg q) quotes = Some q)
    \<and> distinct (map quoteAlg (supportedQuotes env quotes))
    \<and> length (supportedQuotes env quotes) \<le> card (quoteAlg ` set quotes)
    \<and> (\<forall>quotes'. quoteAlg ` set quotes' = quoteAlg ` set quotes \<longrightarrow>
          map quoteAlg (supportedQuotes env quotes') = map quoteAlg (supportedQuotes env quotes))
    \<and> (\<forall>quotes'. set quotes' = set quotes \<and> inj_on quoteAlg (set quotes) \<longrightarrow>
          supportedQuotes env quotes' = supportedQuotes env quotes)"
proof -
  let ?algs = "pcrHashAlgs env"
  have algs: "map quoteAlg (supportedQuotes env quotes') =
      filter (\<lambda>a. a \<in> quoteAlg ` set quotes') ?algs" for quotes'
    by (simp add: supportedQuotes_def supportedQuotes_loop_algs)
  have first: "\<forall>q \<in> set (supportedQuotes env quotes).
      List.find (\<lambda>q'. quoteAlg q' = quoteAlg q) quotes = Some q"
  proof
    fix q assume "q \<in> set (supportedQuotes env quotes)"
    then obtain a where a: "firstQuoteWithAlg a quotes = Some q"
      by (auto simp: supportedQuotes_def supportedQuotes_loop_members)
    with firstQuoteWithAlg_SomeD [OF a] show
      "List.find (\<lambda>q'. quoteAlg q' = quoteAlg q) quotes = Some q"
      by (simp add: firstQuoteWithAlg_find)
  qed
  have dist: "distinct (map quoteAlg (supportedQuotes env quotes))"
    using assms by (simp add: algs)
  have "length (supportedQuotes env quotes) = length (map quoteAlg (supportedQuotes env quotes))"
    by simp
  also have "\<dots> \<le> card (quoteAlg ` set quotes)"
    using filter_length_le_card [OF assms, of "quoteAlg ` set quotes"] by (simp add: algs)
  finally have len: "length (supportedQuotes env quotes) \<le> card (quoteAlg ` set quotes)" .
  have perm: "\<forall>quotes'. set quotes' = set quotes \<and> inj_on quoteAlg (set quotes) \<longrightarrow>
      supportedQuotes env quotes' = supportedQuotes env quotes"
  proof (intro allI impI)
    fix quotes'
    assume h: "set quotes' = set quotes \<and> inj_on quoteAlg (set quotes)"
    show "supportedQuotes env quotes' = supportedQuotes env quotes"
      unfolding supportedQuotes_def
      by (rule supportedQuotes_loop_perm) (use h in simp_all)
  qed
  have def: "pcrHashAlgs env = SignatureHashAlgs env @ [AlgSHA1]"
    by (simp add: pcrHashAlgs_def)
  have same: "\<forall>quotes'. quoteAlg ` set quotes' = quoteAlg ` set quotes \<longrightarrow>
      map quoteAlg (supportedQuotes env quotes') = map quoteAlg (supportedQuotes env quotes)"
    unfolding algs by simp
  from def algs [of quotes] first dist len same perm show ?thesis
    by (intro conjI)
qed

theorem supportedQuotes_preference_order_witness:
  "distinct (pcrHashAlgs demoEnv)
   \<and> supportedQuotes demoEnv [demoQuote 4 [9], demoQuote 11 [9], demoQuote 3 [9], demoQuote 13 [9]]
       = [demoQuote 13 [9], demoQuote 11 [9], demoQuote 4 [9]]
   \<and> length (supportedQuotes demoEnv
         [demoQuote 4 [9], demoQuote 11 [9], demoQuote 3 [9], demoQuote 13 [9]]) \<le> 4
   \<and> supportedQuotes demoEnv [demoQuote 13 [9], demoQuote 3 [9], demoQuote 11 [9], demoQuote 4 [9]]
       = supportedQuotes demoEnv [demoQuote 4 [9], demoQuote 11 [9], demoQuote 3 [9], demoQuote 13 [9]]"
proof -
  let ?qs = "[demoQuote 4 [9], demoQuote 11 [9], demoQuote 3 [9], demoQuote 13 [9]]"
  let ?qs' = "[demoQuote 13 [9], demoQuote 3 [9], demoQuote 11 [9], demoQuote 4 [9]]"
  have d: "distinct (pcrHashAlgs demoEnv)"
    by (simp add: demo_pcrHashAlgs)
  note t = supportedQuotes_preference_order [OF d, of ?qs]
  have card: "card (quoteAlg ` set ?qs) = 4"
    by (simp add: demoQuote_alg)
  from t have "length (supportedQuotes demoEnv ?qs) \<le> card (quoteAlg ` set ?qs)"
    by (elim conjE)
  then have len: "length (supportedQuotes demoEnv ?qs) \<le> 4"
    by (simp only: card)
  from t have "\<forall>quotes'. set quotes' = set ?qs \<and> inj_on quoteAlg (set ?qs) \<longrightarrow>
      supportedQuotes demoEnv quotes' = supportedQuotes demoEnv ?qs"
    by (elim conjE)
  moreover have "set ?qs' = set ?qs" by auto
  moreover have "inj_on quoteAlg (set ?qs)" by (auto simp: inj_on_def demoQuote_alg)
  ultimately have perm: "supportedQuotes demoEnv ?qs' = supportedQuotes demoEnv ?qs"
    by blast
  from d demo_supportedQuotes len perm show ?thesis
    by (intro conjI)
qed

subsection \<open>The vendor extension\<close>

text \<open>
  Claim C7. \<^verbatim>\<open>getInstanceInfo\<close> returns nil and no error when no extension has the
  instance-identifier OID. When the first such extension has a value that decodes, it
  returns the "negative integer fields" error if the project number, the instance id or the
  security version is negative; and, these three being non-negative (the sign check comes
  first), it returns nil and no error if the production flag is false.
\<close>

theorem getInstanceInfo_absent_negative_nonproduction:
  "((\<forall>ext \<in> set extensions. Id_ext ext \<noteq> cloudComputeInstanceIdentifierOID) \<longrightarrow>
      getInstanceInfo env extensions = Inr None)
   \<and> (\<forall>ext info.
        List.find (\<lambda>e. Id_ext e = cloudComputeInstanceIdentifierOID) extensions = Some ext
        \<and> Value ext \<noteq> [] \<and> asn1_Unmarshal env (Value ext) = Inr info
        \<and> (ProjectNumber info <s 0 \<or> InstanceID info <s 0
            \<or> SecurityVersion (SecurityProperties info) <s 0) \<longrightarrow>
        getInstanceInfo env extensions = Inl NegativeIntegerFields)
   \<and> (\<forall>ext info.
        List.find (\<lambda>e. Id_ext e = cloudComputeInstanceIdentifierOID) extensions = Some ext
        \<and> Value ext \<noteq> [] \<and> asn1_Unmarshal env (Value ext) = Inr info
        \<and> \<not> ProjectNumber info <s 0 \<and> \<not> InstanceID info <s 0
        \<and> \<not> SecurityVersion (SecurityProperties info) <s 0
        \<and> \<not> IsProduction (SecurityProperties info) \<longrightarrow>
        getInstanceInfo env extensions = Inr None)"
proof (intro conjI allI impI)
  assume "\<forall>ext \<in> set extensions. Id_ext ext \<noteq> cloudComputeInstanceIdentifierOID"
  then have "List.find (\<lambda>e. Id_ext e = cloudComputeInstanceIdentifierOID) extensions = None"
    by (simp add: find_None_iff)
  then show "getInstanceInfo env extensions = Inr None"
    by (simp add: getInstanceInfo_def findRawInfo_find)
next
  fix ext info
  assume "List.find (\<lambda>e. Id_ext e = cloudComputeInstanceIdentifierOID) extensions = Some ext
      \<and> Value ext \<noteq> [] \<and> asn1_Unmarshal env (Value ext) = Inr info
      \<and> (ProjectNumber info <s 0 \<or> InstanceID info <s 0
          \<or> SecurityVersion (SecurityProperties info) <s 0)"
  then show "getInstanceInfo env extensions = Inl NegativeIntegerFields"
    by (simp add: getInstanceInfo_def findRawInfo_find)
next
  fix ext info
  assume "List.find (\<lambda>e. Id_ext e = cloudComputeInstanceIdentifierOID) extensions = Some ext
      \<and> Value ext \<noteq> [] \<and> asn1_Unmarshal env (Value ext) = Inr info
      \<and> \<not> ProjectNumber info <s 0 \<and> \<not> InstanceID info <s 0
      \<and> \<not> SecurityVersion (SecurityProperties info) <s 0
      \<and> \<not> IsProduction (SecurityProperties info)"
  then show "getInstanceInfo env extensions = Inr None"
    by (simp add: getInstanceInfo_def findRawInfo_find)
qed

theorem getInstanceInfo_absent_negative_nonproduction_witness:
  "getInstanceInfo demoEnv
       [\<lparr>Id_ext = oidExtensionSubjectAltName, Critical = True, Value = [1]\<rparr>] = Inr None
   \<and> getInstanceInfo demoEnv [vendorExtension [255, 2, 0, 1]] = Inl NegativeIntegerFields
   \<and> getInstanceInfo demoEnv [vendorExtension [1, 2, 0, 0]] = Inr None"
proof -
  let ?san = "\<lparr>Id_ext = oidExtensionSubjectAltName, Critical = True, Value = [1]\<rparr>"
  have 1: "getInstanceInfo demoEnv [?san] = Inr None"
    using getInstanceInfo_absent_negative_nonproduction [of "[?san]" demoEnv]
    by (simp add: oidExtensionSubjectAltName_def cloudComputeInstanceIdentifierOID_def)
  let ?neg = "\<lparr>Zone = ''z'', ProjectNumber = scast (255 :: 8 word), ProjectID = ''p'',
      InstanceID = scast (2 :: 8 word), InstanceName = ''n'',
      SecurityProperties =
        \<lparr>SecurityVersion = scast (0 :: 8 word), IsProduction = ((1 :: 8 word) \<noteq> 0)\<rparr>\<rparr>"
  have "List.find (\<lambda>e. Id_ext e = cloudComputeInstanceIdentifierOID)
        [vendorExtension [255, 2, 0, 1]] = Some (vendorExtension [255, 2, 0, 1])
      \<and> Value (vendorExtension [255, 2, 0, 1]) \<noteq> []
      \<and> asn1_Unmarshal demoEnv (Value (vendorExtension [255, 2, 0, 1])) = Inr ?neg
      \<and> (ProjectNumber ?neg <s 0 \<or> InstanceID ?neg <s 0
          \<or> SecurityVersion (SecurityProperties ?neg) <s 0)"
    by (simp add: vendorExtension_Id vendorExtension_Value demo_Unmarshal4 word_sless_alt)
  with getInstanceInfo_absent_negative_nonproduction
      [of "[vendorExtension [255, 2, 0, 1]]" demoEnv]
  have 2: "getInstanceInfo demoEnv [vendorExtension [255, 2, 0, 1]] = Inl NegativeIntegerFields"
    by blast
  let ?dev = "\<lparr>Zone = ''z'', ProjectNumber = scast (1 :: 8 word), ProjectID = ''p'',
      InstanceID = scast (2 :: 8 word), InstanceName = ''n'',
      SecurityProperties =
        \<lparr>SecurityVersion = scast (0 :: 8 word), IsProduction = ((0 :: 8 word) \<noteq> 0)\<rparr>\<rparr>"
  have "List.find (\<lambda>e. Id_ext e = cloudComputeInstanceIdentifierOID)
        [vendorExtension [1, 2, 0, 0]] = Some (vendorExtension [1, 2, 0, 0])
      \<and> Value (vendorExtension [1, 2, 0, 0]) \<noteq> []
      \<and> asn1_Unmarshal demoEnv (Value (vendorExtension [1, 2, 0, 0])) = Inr ?dev
      \<and> \<not> ProjectNumber ?dev <s 0 \<and> \<not> InstanceID ?dev <s 0
      \<and> \<not> SecurityVersion (SecurityProperties ?dev) <s 0
      \<and> \<not> IsProduction (SecurityProperties ?dev)"
    by (simp add: vendorExtension_Id vendorExtension_Value demo_Unmarshal4 word_sless_alt)
  with getInstanceInfo_absent_negative_nonproduction
      [of "[vendorExtension [1, 2, 0, 0]]" demoEnv]
  have 3: "getInstanceInfo demoEnv [vendorExtension [1, 2, 0, 0]] = Inr None"
    by blast
  from 1 2 3 show ?thesis by (intro conjI)
qed

subsection \<open>The unhandled critical extensions\<close>

text \<open>
  Claim C8. With trusted roots, the loop before the chain verification keeps every
  unhandled critical extension but the subject-alternative-name OID, in order, and the
  certificate handed to \<^verbatim>\<open>Verify\<close> is the given one with that list. So when the list holds
  nothing but the subject-alternative-name OID and the verifier accepts the certificate
  without unhandled critical extensions, \<^verbatim>\<open>validateAKCert\<close> does not fail with "did not
  chain to a trusted root"; and when the list holds any other OID and the verifier rejects,
  as \<^verbatim>\<open>crypto/x509\<close> does, every certificate with an unhandled critical extension left,
  \<^verbatim>\<open>validateAKCert\<close> fails with that error.
\<close>

theorem validateAKCert_strips_only_subjectAltName:
  assumes "TrustedRootCerts opts \<noteq> []"
  shows "stripSubjectAltName [] (UnhandledCriticalExtensions akCert) =
           filter (\<lambda>e. e \<noteq> oidExtensionSubjectAltName) (UnhandledCriticalExtensions akCert)
       \<and> validateAKCert env akCert opts =
           (case CertVerify env
                   (akCert\<lparr>UnhandledCriticalExtensions :=
                      filter (\<lambda>e. e \<noteq> oidExtensionSubjectAltName)
                        (UnhandledCriticalExtensions akCert)\<rparr>)
                   (chainOptions opts) of
              Some e \<Rightarrow> Err (CertDidNotChain (External e))
            | None \<Rightarrow>
                (case getInstanceInfo env (Extensions akCert) of
                   Inl e \<Rightarrow> Err (ErrorGettingInstanceInfo e)
                 | Inr instanceInfo \<Rightarrow> Ok (Some (platformMachineState env instanceInfo))))
       \<and> (set (UnhandledCriticalExtensions akCert) \<subseteq> {oidExtensionSubjectAltName}
          \<and> CertVerify env (akCert\<lparr>UnhandledCriticalExtensions := []\<rparr>) (chainOptions opts) = None
          \<longrightarrow> (\<forall>e. validateAKCert env akCert opts \<noteq> Err (CertDidNotChain e)))
       \<and> ((\<exists>e \<in> set (UnhandledCriticalExtensions akCert). e \<noteq> oidExtensionSubjectAltName)
          \<and> (\<forall>c xo. UnhandledCriticalExtensions c \<noteq> [] \<longrightarrow> CertVerify env c xo \<noteq> None)
          \<longrightarrow> (\<exists>m. validateAKCert env akCert opts = Err (CertDidNotChain (External m))))"
proof (intro conjI impI)
  let ?exts = "filter (\<lambda>e. e \<noteq> oidExtensionSubjectAltName) (UnhandledCriticalExtensions akCert)"
  let ?cert = "akCert\<lparr>UnhandledCriticalExtensions := ?exts\<rparr>"
  show "stripSubjectAltName [] (UnhandledCriticalExtensions akCert) = ?exts"
    by (simp add: stripSubjectAltName_filter)
  show run: "validateAKCert env akCert opts =
      (case CertVerify env ?cert (chainOptions opts) of
         Some e \<Rightarrow> Err (CertDidNotChain (External e))
       | None \<Rightarrow>
           (case getInstanceInfo env (Extensions akCert) of
              Inl e \<Rightarrow> Err (ErrorGettingInstanceInfo e)
            | Inr instanceInfo \<Rightarrow> Ok (Some (platformMachineState env instanceInfo))))"
    by (rule validateAKCert_roots [OF assms])
  {
    assume h: "set (UnhandledCriticalExtensions akCert) \<subseteq> {oidExtensionSubjectAltName}
        \<and> CertVerify env (akCert\<lparr>UnhandledCriticalExtensions := []\<rparr>) (chainOptions opts) = None"
    then have "?exts = []" by (auto simp: filter_empty_conv)
    with h have "CertVerify env ?cert (chainOptions opts) = None" by simp
    then show "\<forall>e. validateAKCert env akCert opts \<noteq> Err (CertDidNotChain e)"
      by (simp add: run split: sum.splits)
  }
  {
    assume h: "(\<exists>e \<in> set (UnhandledCriticalExtensions akCert). e \<noteq> oidExtensionSubjectAltName)
        \<and> (\<forall>c xo. UnhandledCriticalExtensions c \<noteq> [] \<longrightarrow> CertVerify env c xo \<noteq> None)"
    then have "?exts \<noteq> []" by (auto simp: filter_empty_conv)
    then have "UnhandledCriticalExtensions ?cert \<noteq> []" by simp
    with h have "CertVerify env ?cert (chainOptions opts) \<noteq> None" by blast
    then obtain m where "CertVerify env ?cert (chainOptions opts) = Some m" by auto
    then show "\<exists>m. validateAKCert env akCert opts = Err (CertDidNotChain (External m))"
      by (simp add: run)
  }
qed

theorem validateAKCert_strips_only_subjectAltName_witness:
  "validateAKCert demoEnv
       (demoCert [5, 17] (Some 5) [oidExtensionSubjectAltName] [vendorExtension [1, 2, 0, 1]])
       (demoOpts [] [[5, 17]] False) =
     Ok (Some (Some \<lparr>Zone_pb = ''z'', ProjectId_pb = ''p'', ProjectNumber_pb = 1,
                     InstanceName_pb = ''n'', InstanceId_pb = 2\<rparr>, []))
   \<and> validateAKCert demoEnv
       (demoCert [5, 17] (Some 5) [oidExtensionSubjectAltName, [2, 5, 29, 19]]
          [vendorExtension [1, 2, 0, 1]])
       (demoOpts [] [[5, 17]] False) =
     Err (CertDidNotChain (External ''unhandled critical extension''))"
proof -
  let ?opts = "demoOpts [] [[5, 17]] False"
  have r: "TrustedRootCerts ?opts \<noteq> []" by (simp add: demoOpts_def)
  have p: "platformMachineState demoEnv i = (i, [])" for i
    by (simp add: demoEnv_def)
  have v: "CertVerify demoEnv (demoCert [5, 17] k u e) (chainOptions ?opts) =
      (if u \<noteq> [] then Some ''unhandled critical extension'' else None)" for k u e
    by (simp add: demoEnv_def demoCert_def chainOptions_def demoOpts_def)
  have u: "demoCert raw k u e\<lparr>UnhandledCriticalExtensions := u'\<rparr> = demoCert raw k u' e"
    for raw k u e u'
    by (simp add: demoCert_def)
  have s: "[2, 5, 29, 19] \<noteq> oidExtensionSubjectAltName"
    by (simp add: oidExtensionSubjectAltName_def)
  have 1: "validateAKCert demoEnv
      (demoCert [5, 17] (Some 5) [oidExtensionSubjectAltName] [vendorExtension [1, 2, 0, 1]])
      ?opts =
      Ok (Some (Some \<lparr>Zone_pb = ''z'', ProjectId_pb = ''p'', ProjectNumber_pb = 1,
                      InstanceName_pb = ''n'', InstanceId_pb = 2\<rparr>, []))"
    using validateAKCert_strips_only_subjectAltName [OF r, of
        "demoCert [5, 17] (Some 5) [oidExtensionSubjectAltName] [vendorExtension [1, 2, 0, 1]]"
        demoEnv]
    by (simp add: demoCert_sel u v p demo_getInstanceInfo)
  have 2: "validateAKCert demoEnv
      (demoCert [5, 17] (Some 5) [oidExtensionSubjectAltName, [2, 5, 29, 19]]
         [vendorExtension [1, 2, 0, 1]])
      ?opts = Err (CertDidNotChain (External ''unhandled critical extension''))"
    using validateAKCert_strips_only_subjectAltName [OF r, of
        "demoCert [5, 17] (Some 5) [oidExtensionSubjectAltName, [2, 5, 29, 19]]
           [vendorExtension [1, 2, 0, 1]]"
        demoEnv]
    by (simp add: demoCert_sel u v s)
  from 1 2 show ?thesis by (intro conjI)
qed

subsection \<open>Identity failures\<close>

text \<open>
  Claim C9. Once the options are valid, an error of the identity step is the result of the
  whole call, whatever quotes the attestation carries: no candidate is looked at. The
  identity step fails with the wrapped error of the collaborator when the public area does
  not decode, when the raw key is not among the trusted keys, when the certificate or the
  intermediates do not parse, and when the certificate (its subject-alternative-name entry
  removed from the unhandled critical extensions) does not verify against the trusted
  roots. A candidate's own failure, on the contrary, does not end the call. The failure of
  the quote check, of a log replay or of the SHA-1 policy is recorded with its own wrapped
  error and the next candidate is tried: when a candidate passes after any number of failed
  ones, the call returns the seed state merged with the two fragments of that candidate,
  and when the last candidate fails after any number of failed ones, the call returns the
  error recorded for that last candidate.
\<close>

theorem VerifyAttestation_identity_failure_fatal:
  assumes "validateOpts opts = None"
  shows "(\<forall>e. establishAK env att opts = Err e \<longrightarrow>
            (\<forall>quotes. VerifyAttestation env (att\<lparr>Quotes := quotes\<rparr>) opts = Err e))
       \<and> (\<forall>m. AkCert att = [] \<and> DecodePublic env (AkPub att) = Inl m \<longrightarrow>
            establishAK env att opts = Err (FailedDecodeAKPublicArea (External m)))
       \<and> (\<forall>area ak. AkCert att = [] \<and> DecodePublic env (AkPub att) = Inr area
            \<and> PublicKeyOf env area = Inr ak
            \<and> \<not> (\<exists>t \<in> set (TrustedAKs opts). PubKeysEqual env ak t) \<longrightarrow>
            establishAK env att opts = Err (FailedValidateAKPublicKey KeyNotTrusted))
       \<and> (\<forall>m. AkCert att \<noteq> [] \<and> ParseCertificate env (AkCert att) = Inl m \<longrightarrow>
            establishAK env att opts = Err (FailedParseAKCertificate (External m)))
       \<and> (\<forall>akCert m. AkCert att \<noteq> [] \<and> ParseCertificate env (AkCert att) = Inr akCert
            \<and> parseCerts env (IntermediateCerts_att att) = Inl m \<longrightarrow>
            establishAK env att opts = Err (AttestationIntermediates (External m)))
       \<and> (\<forall>akCert certs m. AkCert att \<noteq> [] \<and> ParseCertificate env (AkCert att) = Inr akCert
            \<and> parseCerts env (IntermediateCerts_att att) = Inr certs
            \<and> TrustedRootCerts opts \<noteq> []
            \<and> CertVerify env
                 (akCert\<lparr>UnhandledCriticalExtensions :=
                    filter (\<lambda>e. e \<noteq> oidExtensionSubjectAltName)
                      (UnhandledCriticalExtensions akCert)\<rparr>)
                 (chainOptions (opts\<lparr>IntermediateCerts := IntermediateCerts opts @ certs\<rparr>))
                = Some m \<longrightarrow>
            establishAK env att opts =
              Err (FailedValidateAKCertificate (CertDidNotChain (External m))))
       \<and> (\<forall>ak q m. VerifyQuote env q ak (Nonce opts) = Some m \<longrightarrow>
            checkCandidate env att opts ak q = Inl (FailedVerifyQuote (External m)))
       \<and> (\<forall>ak q m. VerifyQuote env q ak (Nonce opts) = None
            \<and> parsePCClientEventLog env (EventLog att) (GetPcrs q) = Inl m \<longrightarrow>
            checkCandidate env att opts ak q =
              Inl (FailedValidatePCClientEventLog (External m)))
       \<and> (\<forall>ak q state m. VerifyQuote env q ak (Nonce opts) = None
            \<and> parsePCClientEventLog env (EventLog att) (GetPcrs q) = Inr state
            \<and> parseCanonicalEventLog env (CanonicalEventLog att) (GetPcrs q) = Inl m \<longrightarrow>
            checkCandidate env att opts ak q =
              Inl (FailedValidateCanonicalEventLog (External m)))
       \<and> (\<forall>ak q state celState. VerifyQuote env q ak (Nonce opts) = None
            \<and> parsePCClientEventLog env (EventLog att) (GetPcrs q) = Inr state
            \<and> parseCanonicalEventLog env (CanonicalEventLog att) (GetPcrs q) = Inr celState
            \<and> \<not> AllowSHA1 opts \<and> quoteAlg q = AlgSHA1 \<longrightarrow>
            checkCandidate env att opts ak q = Inl SHA1NotAllowed)
       \<and> (\<forall>ak seed pre q post celState state.
            establishAK env att opts = Ok (ak, Some seed)
            \<and> supportedQuotes env (Quotes att) = pre @ q # post
            \<and> (\<forall>c \<in> set pre. isl (checkCandidate env att opts ak c))
            \<and> checkCandidate env att opts ak q = Inr (celState, state) \<longrightarrow>
            VerifyAttestation env att opts =
              Ok (Some (MergeMessage env (MergeMessage env seed celState) state)))
       \<and> (\<forall>ak ms pre q e.
            establishAK env att opts = Ok (ak, ms)
            \<and> supportedQuotes env (Quotes att) = pre @ [q]
            \<and> (\<forall>c \<in> set pre. isl (checkCandidate env att opts ak c))
            \<and> checkCandidate env att opts ak q = Inl e \<longrightarrow>
            VerifyAttestation env att opts = Err e)"
proof (intro conjI allI impI)
  fix e quotes
  assume e: "establishAK env att opts = Err e"
  have "establishAK env (att\<lparr>Quotes := quotes\<rparr>) opts = establishAK env att opts"
    by (simp add: establishAK_def split: sum.splits)
  with e assms show "VerifyAttestation env (att\<lparr>Quotes := quotes\<rparr>) opts = Err e"
    by (simp add: VerifyAttestation_valid_opts)
next
  fix m
  assume "AkCert att = [] \<and> DecodePublic env (AkPub att) = Inl m"
  then show "establishAK env att opts = Err (FailedDecodeAKPublicArea (External m))"
    by (simp add: establishAK_def)
next
  fix area ak
  assume "AkCert att = [] \<and> DecodePublic env (AkPub att) = Inr area
      \<and> PublicKeyOf env area = Inr ak
      \<and> \<not> (\<exists>t \<in> set (TrustedAKs opts). PubKeysEqual env ak t)"
  then show "establishAK env att opts = Err (FailedValidateAKPublicKey KeyNotTrusted)"
    by (simp add: establishAK_def validateAKPub_cases)
next
  fix m
  assume "AkCert att \<noteq> [] \<and> ParseCertificate env (AkCert att) = Inl m"
  then show "establishAK env att opts = Err (FailedParseAKCertificate (External m))"
    by (simp add: establishAK_def)
next
  fix akCert m
  assume "AkCert att \<noteq> [] \<and> ParseCertificate env (AkCert att) = Inr akCert
      \<and> parseCerts env (IntermediateCerts_att att) = Inl m"
  then show "establishAK env att opts = Err (AttestationIntermediates (External m))"
    by (simp add: establishAK_def)
next
  fix akCert certs m
  let ?opts = "opts\<lparr>IntermediateCerts := IntermediateCerts opts @ certs\<rparr>"
  assume h: "AkCert att \<noteq> [] \<and> ParseCertificate env (AkCert att) = Inr akCert
      \<and> parseCerts env (IntermediateCerts_att att) = Inr certs
      \<and> TrustedRootCerts opts \<noteq> []
      \<and> CertVerify env
           (akCert\<lparr>UnhandledCriticalExtensions :=
              filter (\<lambda>e. e \<noteq> oidExtensionSubjectAltName)
                (UnhandledCriticalExtensions akCert)\<rparr>)
           (chainOptions ?opts) = Some m"
  then have r: "TrustedRootCerts ?opts \<noteq> []" by simp
  have "validateAKCert env akCert ?opts = Err (CertDidNotChain (External m))"
    using h by (simp only: validateAKCert_roots [OF r]) simp
  with h show "establishAK env att opts =
      Err (FailedValidateAKCertificate (CertDidNotChain (External m)))"
    by (simp add: establishAK_def)
next
  fix ak q m
  assume "VerifyQuote env q ak (Nonce opts) = Some m"
  then show "checkCandidate env att opts ak q = Inl (FailedVerifyQuote (External m))"
    by (simp add: checkCandidate_def)
next
  fix ak q m
  assume "VerifyQuote env q ak (Nonce opts) = None
      \<and> parsePCClientEventLog env (EventLog att) (GetPcrs q) = Inl m"
  then show "checkCandidate env att opts ak q =
      Inl (FailedValidatePCClientEventLog (External m))"
    by (simp add: checkCandidate_def Let_def)
next
  fix ak q state m
  assume "VerifyQuote env q ak (Nonce opts) = None
      \<and> parsePCClientEventLog env (EventLog att) (GetPcrs q) = Inr state
      \<and> parseCanonicalEventLog env (CanonicalEventLog att) (GetPcrs q) = Inl m"
  then show "checkCandidate env att opts ak q =
      Inl (FailedValidateCanonicalEventLog (External m))"
    by (simp add: checkCandidate_def Let_def)
next
  fix ak q state celState
  assume "VerifyQuote env q ak (Nonce opts) = None
      \<and> parsePCClientEventLog env (EventLog att) (GetPcrs q) = Inr state
      \<and> parseCanonicalEventLog env (CanonicalEventLog att) (GetPcrs q) = Inr celState
      \<and> \<not> AllowSHA1 opts \<and> quoteAlg q = AlgSHA1"
  then show "checkCandidate env att opts ak q = Inl SHA1NotAllowed"
    by (simp add: checkCandidate_def quoteAlg_def Let_def)
next
  fix ak seed pre q post celState state
  assume h: "establishAK env att opts = Ok (ak, Some seed)
      \<and> supportedQuotes env (Quotes att) = pre @ q # post
      \<and> (\<forall>c \<in> set pre. isl (checkCandidate env att opts ak c))
      \<and> checkCandidate env att opts ak q = Inr (celState, state)"
  then have f: "\<forall>c \<in> set pre. \<not> candidatePasses env att opts ak c"
    by (simp add: candidatePasses_iff)
  from h have p: "checkCandidate env att opts ak q = Inr (celState, state)" by simp
  from h assms replayQuotes_first_pass [OF f p, of seed None post]
  show "VerifyAttestation env att opts =
      Ok (Some (MergeMessage env (MergeMessage env seed celState) state))"
    by (simp add: VerifyAttestation_valid_opts)
next
  fix ak ms pre q e
  assume h: "establishAK env att opts = Ok (ak, ms)
      \<and> supportedQuotes env (Quotes att) = pre @ [q]
      \<and> (\<forall>c \<in> set pre. isl (checkCandidate env att opts ak c))
      \<and> checkCandidate env att opts ak q = Inl e"
  then have f: "\<forall>c \<in> set (pre @ [q]). \<not> candidatePasses env att opts ak c"
    by (simp add: candidatePasses_iff)
  have n: "pre @ [q] \<noteq> []" by simp
  from replayQuotes_all_fail_nonempty [OF f n, of ms None] h
  have "replayQuotes env att opts ak ms None (pre @ [q]) = Err e" by simp
  with h assms show "VerifyAttestation env att opts = Err e"
    by (simp add: VerifyAttestation_valid_opts)
qed

theorem VerifyAttestation_identity_failure_fatal_witness:
  "VerifyAttestation demoEnv (demoAttestation [] []\<lparr>Quotes := [demoQuote 11 [9]]\<rparr>)
       (demoOpts [6] [] False)
     = Err (FailedValidateAKPublicKey KeyNotTrusted)
   \<and> VerifyAttestation demoEnv
       (demoAttestation [] []\<lparr>AkPub := [], Quotes := [demoQuote 11 [9]]\<rparr>)
       (demoOpts [5] [] False)
     = Err (FailedDecodeAKPublicArea (External ''short public area''))
   \<and> VerifyAttestation demoEnv (demoAttestation [255] []\<lparr>Quotes := [demoQuote 11 [9]]\<rparr>)
       (demoOpts [5] [] False)
     = Err (FailedParseAKCertificate (External ''malformed certificate''))
   \<and> VerifyAttestation demoEnv
       (demoAttestation [5] []\<lparr>IntermediateCerts_att := [[]], Quotes := [demoQuote 11 [9]]\<rparr>)
       (demoOpts [5] [] False)
     = Err (AttestationIntermediates (External ''malformed certificate''))
   \<and> VerifyAttestation demoEnv
       (demoAttestation [5, 17, 19] []\<lparr>Quotes := [demoQuote 11 [9]]\<rparr>)
       (demoOpts [] [[5, 17, 19]] False)
     = Err (FailedValidateAKCertificate
         (CertDidNotChain (External ''unhandled critical extension'')))
   \<and> VerifyAttestation demoEnv (demoAttestation [] [demoQuote 11 [9], demoQuote 13 [8]])
       (demoOpts [5] [] False)
     = Ok (Some (None, [''cel'', ''pcclient'']))
   \<and> VerifyAttestation demoEnv (demoAttestation [] [demoQuote 4 [9], demoQuote 11 [8]])
       (demoOpts [5] [] False)
     = Err SHA1NotAllowed"
proof -
  let ?q = "[demoQuote 11 [9]]"
  let ?keyOpts = "demoOpts [5] [] False"
  have v: "validateOpts (demoOpts [6] [] False) = None" "validateOpts ?keyOpts = None"
    "validateOpts (demoOpts [] [[5, 17, 19]] False) = None"
    by (simp_all add: demo_validateOpts)
  \<comment> \<open>an untrusted raw key\<close>
  let ?att1 = "demoAttestation [] []"
  note t1a = VerifyAttestation_identity_failure_fatal [OF v(1), of demoEnv ?att1, THEN conjunct2,
      THEN conjunct2, THEN conjunct1]
    and t1b = VerifyAttestation_identity_failure_fatal [OF v(1), of demoEnv ?att1, THEN conjunct1]
  have "AkCert ?att1 = [] \<and> DecodePublic demoEnv (AkPub ?att1) = Inr 5
      \<and> PublicKeyOf demoEnv 5 = Inr 5
      \<and> \<not> (\<exists>t \<in> set (TrustedAKs (demoOpts [6] [] False)). PubKeysEqual demoEnv 5 t)"
    by (simp add: demoAttestation_def demoEnv_def demoOpts_def)
  with t1a have "establishAK demoEnv ?att1 (demoOpts [6] [] False)
      = Err (FailedValidateAKPublicKey KeyNotTrusted)"
    by blast
  with t1b have 1: "VerifyAttestation demoEnv (?att1\<lparr>Quotes := ?q\<rparr>) (demoOpts [6] [] False)
      = Err (FailedValidateAKPublicKey KeyNotTrusted)"
    by blast
  \<comment> \<open>a public area that does not decode\<close>
  let ?att2 = "demoAttestation [] []\<lparr>AkPub := []\<rparr>"
  note t2a = VerifyAttestation_identity_failure_fatal [OF v(2), of demoEnv ?att2, THEN conjunct2,
      THEN conjunct1]
    and t2b = VerifyAttestation_identity_failure_fatal [OF v(2), of demoEnv ?att2, THEN conjunct1]
  have "AkCert ?att2 = [] \<and> DecodePublic demoEnv (AkPub ?att2) = Inl ''short public area''"
    by (simp add: demoAttestation_def demoEnv_def)
  with t2a have "establishAK demoEnv ?att2 ?keyOpts
      = Err (FailedDecodeAKPublicArea (External ''short public area''))"
    by blast
  with t2b have 2: "VerifyAttestation demoEnv (?att2\<lparr>Quotes := ?q\<rparr>) ?keyOpts
      = Err (FailedDecodeAKPublicArea (External ''short public area''))"
    by blast
  \<comment> \<open>a certificate that does not parse\<close>
  let ?att3 = "demoAttestation [255] []"
  note t3a = VerifyAttestation_identity_failure_fatal [OF v(2), of demoEnv ?att3, THEN conjunct2,
      THEN conjunct2, THEN conjunct2, THEN conjunct1]
    and t3b = VerifyAttestation_identity_failure_fatal [OF v(2), of demoEnv ?att3, THEN conjunct1]
  have "AkCert ?att3 \<noteq> [] \<and> ParseCertificate demoEnv (AkCert ?att3) = Inl ''malformed certificate''"
    by (simp add: demoAttestation_def demoEnv_def)
  with t3a have "establishAK demoEnv ?att3 ?keyOpts
      = Err (FailedParseAKCertificate (External ''malformed certificate''))"
    by blast
  with t3b have 3: "VerifyAttestation demoEnv (?att3\<lparr>Quotes := ?q\<rparr>) ?keyOpts
      = Err (FailedParseAKCertificate (External ''malformed certificate''))"
    by blast
  \<comment> \<open>intermediates that do not parse\<close>
  let ?att4 = "demoAttestation [5] []\<lparr>IntermediateCerts_att := [[]]\<rparr>"
  note t4a = VerifyAttestation_identity_failure_fatal [OF v(2), of demoEnv ?att4, THEN conjunct2,
      THEN conjunct2, THEN conjunct2, THEN conjunct2, THEN conjunct1]
    and t4b = VerifyAttestation_identity_failure_fatal [OF v(2), of demoEnv ?att4, THEN conjunct1]
  have "AkCert ?att4 \<noteq> []
      \<and> ParseCertificate demoEnv (AkCert ?att4) =
          Inr (demoCert [5] (Some 5) [] [vendorExtension [1, 2, 0, 1]])
      \<and> parseCerts demoEnv (IntermediateCerts_att ?att4) = Inl ''malformed certificate''"
    by (simp add: demoAttestation_def demoEnv_def demoCert_def)
  with t4a have "establishAK demoEnv ?att4 ?keyOpts
      = Err (AttestationIntermediates (External ''malformed certificate''))"
    by blast
  with t4b have 4: "VerifyAttestation demoEnv (?att4\<lparr>Quotes := ?q\<rparr>) ?keyOpts
      = Err (AttestationIntermediates (External ''malformed certificate''))"
    by blast
  \<comment> \<open>a certificate with a second unhandled critical extension\<close>
  let ?att5 = "demoAttestation [5, 17, 19] []"
  let ?opts5 = "demoOpts [] [[5, 17, 19]] False"
  let ?cert = "demoCert [5, 17, 19] (Some 5) [oidExtensionSubjectAltName, [2, 5, 29, 19]]
      [vendorExtension [1, 2, 0, 1]]"
  note t5a = VerifyAttestation_identity_failure_fatal [OF v(3), of demoEnv ?att5, THEN conjunct2,
      THEN conjunct2, THEN conjunct2, THEN conjunct2, THEN conjunct2, THEN conjunct1]
    and t5b = VerifyAttestation_identity_failure_fatal [OF v(3), of demoEnv ?att5, THEN conjunct1]
  have "AkCert ?att5 \<noteq> [] \<and> ParseCertificate demoEnv (AkCert ?att5) = Inr ?cert
      \<and> parseCerts demoEnv (IntermediateCerts_att ?att5) = Inr []
      \<and> TrustedRootCerts ?opts5 \<noteq> []
      \<and> CertVerify demoEnv
           (?cert\<lparr>UnhandledCriticalExtensions :=
              filter (\<lambda>e. e \<noteq> oidExtensionSubjectAltName)
                (UnhandledCriticalExtensions ?cert)\<rparr>)
           (chainOptions (?opts5\<lparr>IntermediateCerts := IntermediateCerts ?opts5 @ []\<rparr>))
          = Some ''unhandled critical extension''"
    by (simp add: demoAttestation_def demoEnv_def demoOpts_def demoCert_def
        oidExtensionSubjectAltName_def)
  with t5a have "establishAK demoEnv ?att5 ?opts5 =
      Err (FailedValidateAKCertificate
        (CertDidNotChain (External ''unhandled critical extension'')))"
    by blast
  with t5b have 5: "VerifyAttestation demoEnv (?att5\<lparr>Quotes := ?q\<rparr>) ?opts5
      = Err (FailedValidateAKCertificate
          (CertDidNotChain (External ''unhandled critical extension'')))"
    by blast
  \<comment> \<open>a candidate whose log does not replay, followed by one that passes\<close>
  let ?att6 = "demoAttestation [] [demoQuote 11 [9], demoQuote 13 [8]]"
  have m: "MergeMessage demoEnv d s =
      (case fst s of None \<Rightarrow> fst d | Some i \<Rightarrow> Some i, snd d @ snd s)" for d s
    by (simp add: demoEnv_def)
  have "establishAK demoEnv ?att6 ?keyOpts = Ok (5, Some (None, []))
      \<and> supportedQuotes demoEnv (Quotes ?att6) = [demoQuote 13 [8]] @ demoQuote 11 [9] # []
      \<and> (\<forall>c \<in> set [demoQuote 13 [8]]. isl (checkCandidate demoEnv ?att6 ?keyOpts 5 c))
      \<and> checkCandidate demoEnv ?att6 ?keyOpts 5 (demoQuote 11 [9])
          = Inr ((None, [''cel'']), (None, [''pcclient'']))"
    by (simp add: demo_establishAK_key demo_Quotes supportedQuotes_def demo_pcrHashAlgs
        demoQuote_alg demo_checkCandidate)
  with VerifyAttestation_identity_failure_fatal [OF v(2), of demoEnv ?att6, THEN conjunct2,
      THEN conjunct2, THEN conjunct2, THEN conjunct2, THEN conjunct2, THEN conjunct2,
      THEN conjunct2, THEN conjunct2, THEN conjunct2, THEN conjunct2, THEN conjunct1]
  have "VerifyAttestation demoEnv ?att6 ?keyOpts =
      Ok (Some (MergeMessage demoEnv (MergeMessage demoEnv (None, []) (None, [''cel'']))
        (None, [''pcclient''])))"
    by blast
  then have 6: "VerifyAttestation demoEnv ?att6 ?keyOpts
      = Ok (Some (None, [''cel'', ''pcclient'']))"
    by (simp add: m)
  \<comment> \<open>two failing candidates: the error of the last one is returned\<close>
  let ?att7 = "demoAttestation [] [demoQuote 4 [9], demoQuote 11 [8]]"
  have "establishAK demoEnv ?att7 ?keyOpts = Ok (5, Some (None, []))
      \<and> supportedQuotes demoEnv (Quotes ?att7) = [demoQuote 11 [8]] @ [demoQuote 4 [9]]
      \<and> (\<forall>c \<in> set [demoQuote 11 [8]]. isl (checkCandidate demoEnv ?att7 ?keyOpts 5 c))
      \<and> checkCandidate demoEnv ?att7 ?keyOpts 5 (demoQuote 4 [9]) = Inl SHA1NotAllowed"
    by (simp add: demo_establishAK_key demo_Quotes supportedQuotes_def demo_pcrHashAlgs
        demoQuote_alg demo_checkCandidate)
  with VerifyAttestation_identity_failure_fatal [OF v(2), of demoEnv ?att7, THEN conjunct2,
      THEN conjunct2, THEN conjunct2, THEN conjunct2, THEN conjunct2, THEN conjunct2,
      THEN conjunct2, THEN conjunct2, THEN conjunct2, THEN conjunct2, THEN conjunct2]
  have 7: "VerifyAttestation demoEnv ?att7 ?keyOpts = Err SHA1NotAllowed"
    by blast
  from 1 2 3 4 5 6 7 show ?thesis by (intro conjI)
qed

subsection \<open>Absent security properties\<close>

text \<open>
  Claim C10. When the bytes of the vendor extension decode, hold no security-properties
  structure, and the project number and instance id are not negative, the struct keeps the
  zero value of its \<^verbatim>\<open>SecurityProperties\<close> field: security version 0, production flag
  false. So \<^verbatim>\<open>getInstanceInfo\<close> returns nil and no error: no instance identity comes out of
  an extension that parsed.
\<close>

theorem getInstanceInfo_absent_security_properties:
  assumes "List.find (\<lambda>e. Id_ext e = cloudComputeInstanceIdentifierOID) extensions = Some ext"
    and "asn1Decode env (Value ext) = Inr d"
    and "SecurityProperties_der d = None"
    and "\<not> ProjectNumber_der d <s 0" and "\<not> InstanceID_der d <s 0"
  shows "asn1_Unmarshal env (Value ext) = Inr (storeInstanceInfo d)
       \<and> IsProduction (SecurityProperties (storeInstanceInfo d)) = False
       \<and> SecurityVersion (SecurityProperties (storeInstanceInfo d)) = 0
       \<and> getInstanceInfo env extensions = Inr None"
proof -
  have u: "asn1_Unmarshal env (Value ext) = Inr (storeInstanceInfo d)"
    using assms(2) by (simp add: asn1_Unmarshal_def)
  have s: "SecurityProperties (storeInstanceInfo d) = \<lparr>SecurityVersion = 0, IsProduction = False\<rparr>"
    using assms(3) by (simp add: storeInstanceInfo_def storeSecurityProperties_def)
  have n: "ProjectNumber (storeInstanceInfo d) = ProjectNumber_der d"
    "InstanceID (storeInstanceInfo d) = InstanceID_der d"
    by (simp_all add: storeInstanceInfo_def)
  have "getInstanceInfo env extensions = Inr None"
    using assms(1,4,5) u s n by (simp add: getInstanceInfo_def findRawInfo_find Let_def)
  with u s show ?thesis by simp
qed

theorem getInstanceInfo_absent_security_properties_witness:
  "getInstanceInfo demoEnv [vendorExtension [1, 2]] = Inr None
   \<and> asn1_Unmarshal demoEnv [1, 2] =
       Inr \<lparr>Zone = ''z'', ProjectNumber = 1, ProjectID = ''p'', InstanceID = 2,
            InstanceName = ''n'',
            SecurityProperties = \<lparr>SecurityVersion = 0, IsProduction = False\<rparr>\<rparr>"
proof -
  let ?d = "\<lparr>Zone_der = ''z'', ProjectNumber_der = 1, ProjectID_der = ''p'',
      InstanceID_der = 2, InstanceName_der = ''n'', SecurityProperties_der = None\<rparr>"
  have d: "asn1Decode demoEnv (Value (vendorExtension [1, 2])) = Inr ?d"
    by (simp add: vendorExtension_Value demoEnv_def demoDecode_def)
  have n: "\<not> ProjectNumber_der ?d <s 0" "\<not> InstanceID_der ?d <s 0"
    by (simp_all add: word_sless_alt)
  have a: "SecurityProperties_der ?d = None" by simp
  from getInstanceInfo_absent_security_properties [OF demo_find_vendor d a n]
  show ?thesis
    by (simp add: vendorExtension_Value storeInstanceInfo_def storeSecurityProperties_def)
qed

end
